theory Spec2Isabelle
  imports Main
begin

section \<open>Configuration: secrets from a file or from the environment\<close>

text \<open>
  The process environment is a map from variable names to values, and the file system
  maps each existing path to the text that reading it yields. Text is a list of
  characters, each standing for one code point below 256.
\<close>

type_synonym environ = "string \<rightharpoonup> string"
type_synonym filesystem = "string \<rightharpoonup> string"

text \<open>The characters below 256 that Python's \<^verbatim>\<open>str.strip()\<close> removes.\<close>

definition py_isspace :: "char \<Rightarrow> bool" where
  "py_isspace c = (of_char c \<in> {9, 10, 11, 12, 13, 28, 29, 30, 31, 32, 133, 160 :: nat})"

definition py_strip :: "string \<Rightarrow> string" where
  "py_strip s = rev (dropWhile py_isspace (rev (dropWhile py_isspace s)))"

text \<open>\<^verbatim>\<open>os.getenv(key, default)\<close>: the value when the variable is set, else the default.\<close>

definition getenv :: "environ \<Rightarrow> string \<Rightarrow> string option \<Rightarrow> string option" where
  "getenv env k dflt = (case env k of Some v \<Rightarrow> Some v | None \<Rightarrow> dflt)"

text \<open>
  \<^verbatim>\<open>get_secret(env_var, default=None)\<close>. The test \<^verbatim>\<open>if file_path and os.path.exists(file_path)\<close>
  fails for an unset variable, for the empty string and for a path that does not exist.
\<close>

definition get_secret :: "environ \<Rightarrow> filesystem \<Rightarrow> string \<Rightarrow> string option \<Rightarrow> string option" where
  "get_secret env fs env_var dflt =
     (case getenv env (env_var @ ''_FILE'') None of
        None \<Rightarrow> getenv env env_var dflt
      | Some file_path \<Rightarrow>
          (if file_path \<noteq> [] then
             (case fs file_path of
                Some contents \<Rightarrow> Some (py_strip contents)
              | None \<Rightarrow> getenv env env_var dflt)
           else getenv env env_var dflt))"

text \<open>The module-level settings, read once when the module is loaded.\<close>

record 'f config =
  DB_HOST :: "string option"
  DB_NAME :: "string option"
  DB_USER :: "string option"
  DB_PASSWORD :: "string option"
  REDIS_HOST :: "string option"
  DB_CONNECT_TIMEOUT :: int
  REDIS_CONNECT_TIMEOUT :: 'f

section \<open>Products, and the Python library functions the handlers call\<close>

text \<open>
  A row of the products table is the tuple \<^verbatim>\<open>(id, name, price)\<close> that the cursor yields; a
  column value may be NULL. The element of \<^verbatim>\<open>product_list\<close> is the dictionary with the keys
  \<^verbatim>\<open>id\<close>, \<^verbatim>\<open>name\<close> and \<^verbatim>\<open>price\<close>. The type \<open>'n\<close> is the store's numeric type and \<open>'f\<close> is
  Python's float.
\<close>

type_synonym 'n row = "int \<times> string option \<times> 'n option"

record 'f product =
  p_id :: int
  p_name :: "string option"
  p_price :: 'f

text \<open>
  The library functions are parameters of the model: \<^verbatim>\<open>int\<close> and \<^verbatim>\<open>float\<close> on text (None
  when they raise ValueError), \<^verbatim>\<open>float\<close> on a numeric column value, \<^verbatim>\<open>json.dumps\<close> on a
  product list and \<^verbatim>\<open>json.loads\<close> (None when it raises).
\<close>

record ('n, 'f) pylib =
  int_of_str :: "string \<Rightarrow> int option"
  float_of_str :: "string \<Rightarrow> 'f option"
  float_of_numeric :: "'n \<Rightarrow> 'f"
  json_dumps :: "'f product list \<Rightarrow> string"
  json_loads :: "string \<Rightarrow> 'f product list option"

text \<open>Lines 22 to 29 of the module; None when \<^verbatim>\<open>int\<close> or \<^verbatim>\<open>float\<close> raises.\<close>

definition load_config :: "('n, 'f) pylib \<Rightarrow> environ \<Rightarrow> filesystem \<Rightarrow> 'f config option" where
  "load_config L env fs =
     (case getenv env ''DB_CONNECT_TIMEOUT'' (Some ''3'') of
        None \<Rightarrow> None
      | Some dt \<Rightarrow>
     (case int_of_str L dt of
        None \<Rightarrow> None
      | Some db_timeout \<Rightarrow>
     (case getenv env ''REDIS_CONNECT_TIMEOUT'' (Some ''3'') of
        None \<Rightarrow> None
      | Some rt \<Rightarrow>
     (case float_of_str L rt of
        None \<Rightarrow> None
      | Some redis_timeout \<Rightarrow>
          Some \<lparr> DB_HOST = getenv env ''DB_HOST'' (Some ''db''),
                 DB_NAME = get_secret env fs ''DB_NAME'' (Some ''ecommerce''),
                 DB_USER = get_secret env fs ''DB_USER'' (Some ''ecomuser''),
                 DB_PASSWORD = get_secret env fs ''DB_PASSWORD'' (Some ''securepassword123''),
                 REDIS_HOST = getenv env ''REDIS_HOST'' (Some ''redis''),
                 DB_CONNECT_TIMEOUT = db_timeout,
                 REDIS_CONNECT_TIMEOUT = redis_timeout \<rparr>))))"

section \<open>The durable store, the cache and the calls made to them\<close>

datatype 'n statement =
    SelectProducts
  | InsertProduct "string option" "'n option"
  | UpdateProduct "string option" "'n option" int
  | DeleteProduct int

text \<open>
  The statements are, in this order:
  \<^verbatim>\<open>SELECT id, name, price FROM products ORDER BY id;\<close>,
  \<^verbatim>\<open>INSERT INTO products (name, price) VALUES (%s, %s) RETURNING id;\<close>,
  \<^verbatim>\<open>UPDATE products SET name = %s, price = %s WHERE id = %s;\<close> and
  \<^verbatim>\<open>DELETE FROM products WHERE id = %s;\<close>.
\<close>

datatype 'n call =
    DbConnect
  | DbExecute "'n statement"
  | DbFetch
  | DbCommit
  | CursorClose
  | ConnClose
  | CacheGet string
  | CacheSetex string nat
  | CacheDelete string

datatype 'n event = Done "'n call" | Failed "'n call"

datatype 'n exn = CallFailed "'n call" | TypeError | JSONDecodeError

text \<open>
  The world the handlers act on: the committed rows of the products table, the next value
  of the id sequence, the cache (each key with its value and the time at which it
  expires), the time in seconds, and the log of the calls made so far.
\<close>

record 'n world =
  table :: "'n row list"
  next_id :: int
  cache :: "string \<rightharpoonup> string \<times> nat"
  clock :: nat
  trace :: "'n event list"

text \<open>
  Which calls raise is decided by the surroundings: a fault oracle says, for the
  configuration the process runs with, whether a call raises.
\<close>

type_synonym ('n, 'f) faults = "'f config \<Rightarrow> 'n call \<Rightarrow> bool"

type_synonym ('n, 'a) io = "'n world \<Rightarrow> ('n exn + 'a) \<times> 'n world"

definition ret :: "'a \<Rightarrow> ('n, 'a) io" where
  "ret a w = (Inr a, w)"

definition raise :: "'n exn \<Rightarrow> ('n, 'a) io" where
  "raise e w = (Inl e, w)"

definition and_then :: "('n, 'a) io \<Rightarrow> ('a \<Rightarrow> ('n, 'b) io) \<Rightarrow> ('n, 'b) io" where
  "and_then m f w = (case m w of (Inl e, w') \<Rightarrow> (Inl e, w') | (Inr a, w') \<Rightarrow> f a w')"

text \<open>\<^verbatim>\<open>try: m except Exception as e: h(e)\<close>; what \<open>m\<close> did before raising stays done.\<close>

definition try_except :: "('n, 'a) io \<Rightarrow> ('n exn \<Rightarrow> ('n, 'a) io) \<Rightarrow> ('n, 'a) io" where
  "try_except m h w = (case m w of (Inl e, w') \<Rightarrow> h e w' | (Inr a, w') \<Rightarrow> (Inr a, w'))"

definition external :: "('n, 'f) faults \<Rightarrow> 'f config \<Rightarrow> 'n call \<Rightarrow> ('n, unit) io" where
  "external F cfg c w =
     (if F cfg c then (Inl (CallFailed c), w\<lparr>trace := trace w @ [Failed c]\<rparr>)
      else (Inr (), w\<lparr>trace := trace w @ [Done c]\<rparr>))"

subsection \<open>The store\<close>

text \<open>
  A connection with its cursor: the table as the open transaction sees it, and the
  cursor's \<^verbatim>\<open>rowcount\<close> and result rows. A connection that is dropped without a commit
  leaves the committed table as it was.
\<close>

record 'n session =
  pending :: "'n row list"
  rowcount :: int
  results :: "'n row list"

definition get_db_connection :: "('n, 'f) faults \<Rightarrow> 'f config \<Rightarrow> ('n, 'n session) io" where
  "get_db_connection F cfg =
     and_then (external F cfg DbConnect)
       (\<lambda>_ w. (Inr \<lparr> pending = table w, rowcount = - 1, results = [] \<rparr>, w))"

text \<open>
  Modelled from the spec: the declaration of the products table is not among the sources.
  A product's id is an integer assigned by the durable store on creation: the insert takes
  the next value of the store's sequence, and returns the new row, of which the handler
  reads column 0. The sequence moves on even when the insert is not committed. The select
  returns the rows ordered by id ascending; \<^verbatim>\<open>rowcount\<close> is the number of rows the statement
  matched.
\<close>

definition run_statement :: "'n statement \<Rightarrow> int \<Rightarrow> 'n session \<Rightarrow> 'n session" where
  "run_statement stmt new_id s =
     (case stmt of
        SelectProducts \<Rightarrow>
          s\<lparr> rowcount := int (length (pending s)), results := sort_key fst (pending s) \<rparr>
      | InsertProduct name price \<Rightarrow>
          s\<lparr> pending := pending s @ [(new_id, name, price)], rowcount := 1,
             results := [(new_id, name, price)] \<rparr>
      | UpdateProduct name price product_id \<Rightarrow>
          s\<lparr> pending := map (\<lambda>r. if fst r = product_id then (product_id, name, price) else r) (pending s),
             rowcount := int (length (filter (\<lambda>r. fst r = product_id) (pending s))),
             results := [] \<rparr>
      | DeleteProduct product_id \<Rightarrow>
          s\<lparr> pending := filter (\<lambda>r. fst r \<noteq> product_id) (pending s),
             rowcount := int (length (filter (\<lambda>r. fst r = product_id) (pending s))),
             results := [] \<rparr>)"

definition advance_sequence :: "'n statement \<Rightarrow> int \<Rightarrow> int" where
  "advance_sequence stmt n = (case stmt of InsertProduct name price \<Rightarrow> n + 1 | _ \<Rightarrow> n)"

definition execute ::
  "('n, 'f) faults \<Rightarrow> 'f config \<Rightarrow> 'n statement \<Rightarrow> 'n session \<Rightarrow> ('n, 'n session) io" where
  "execute F cfg stmt s =
     and_then (external F cfg (DbExecute stmt))
       (\<lambda>_ w. (Inr (run_statement stmt (next_id w) s),
                w\<lparr>next_id := advance_sequence stmt (next_id w)\<rparr>))"

definition fetchall :: "('n, 'f) faults \<Rightarrow> 'f config \<Rightarrow> 'n session \<Rightarrow> ('n, 'n row list) io" where
  "fetchall F cfg s = and_then (external F cfg DbFetch) (\<lambda>_. ret (results s))"

text \<open>\<^verbatim>\<open>cur.fetchone()[0]\<close>: with no row, \<^verbatim>\<open>fetchone()\<close> is None and the subscript raises.\<close>

definition fetchone_0 :: "('n, 'f) faults \<Rightarrow> 'f config \<Rightarrow> 'n session \<Rightarrow> ('n, int) io" where
  "fetchone_0 F cfg s =
     and_then (external F cfg DbFetch)
       (\<lambda>_. case results s of [] \<Rightarrow> raise TypeError | r # rs \<Rightarrow> ret (fst r))"

definition commit :: "('n, 'f) faults \<Rightarrow> 'f config \<Rightarrow> 'n session \<Rightarrow> ('n, unit) io" where
  "commit F cfg s =
     and_then (external F cfg DbCommit) (\<lambda>_ w. (Inr (), w\<lparr>table := pending s\<rparr>))"

definition cur_close :: "('n, 'f) faults \<Rightarrow> 'f config \<Rightarrow> ('n, unit) io" where
  "cur_close F cfg = external F cfg CursorClose"

definition conn_close :: "('n, 'f) faults \<Rightarrow> 'f config \<Rightarrow> ('n, unit) io" where
  "conn_close F cfg = external F cfg ConnClose"

subsection \<open>The cache\<close>

text \<open>A key is present from the time it is set until its time to live has passed.\<close>

definition cache_lookup :: "'n world \<Rightarrow> string \<Rightarrow> string option" where
  "cache_lookup w key =
     (case cache w key of
        None \<Rightarrow> None
      | Some (v, expires) \<Rightarrow> if clock w < expires then Some v else None)"

definition redis_get :: "('n, 'f) faults \<Rightarrow> 'f config \<Rightarrow> string \<Rightarrow> ('n, string option) io" where
  "redis_get F cfg key =
     and_then (external F cfg (CacheGet key)) (\<lambda>_ w. (Inr (cache_lookup w key), w))"

definition redis_setex ::
  "('n, 'f) faults \<Rightarrow> 'f config \<Rightarrow> string \<Rightarrow> nat \<Rightarrow> string \<Rightarrow> ('n, unit) io" where
  "redis_setex F cfg key ttl v =
     and_then (external F cfg (CacheSetex key ttl))
       (\<lambda>_ w. (Inr (), w\<lparr>cache := (cache w)(key \<mapsto> (v, clock w + ttl))\<rparr>))"

definition redis_delete :: "('n, 'f) faults \<Rightarrow> 'f config \<Rightarrow> string \<Rightarrow> ('n, unit) io" where
  "redis_delete F cfg key =
     and_then (external F cfg (CacheDelete key))
       (\<lambda>_ w. (Inr (), w\<lparr>cache := (cache w)(key := None)\<rparr>))"

text \<open>Time passing between two requests.\<close>

definition advance :: "nat \<Rightarrow> 'n world \<Rightarrow> 'n world" where
  "advance d w = w\<lparr>clock := clock w + d\<rparr>"

section \<open>The handlers\<close>

datatype source = Cache | Database

text \<open>
  The responses: the product list with its source (status 200), the three messages
  \<^verbatim>\<open>Product added\<close>, \<^verbatim>\<open>Product updated\<close> and \<^verbatim>\<open>Product deleted\<close> with the id (status 200),
  \<^verbatim>\<open>Product not found\<close> (status 404), and the error of a caught exception (status 500).
\<close>

datatype ('n, 'f) response =
    Products source "'f product list"
  | ProductAdded int
  | ProductUpdated int
  | ProductDeleted int
  | ProductNotFound
  | ServerError "'n exn"

fun status :: "('n, 'f) response \<Rightarrow> nat" where
  "status ProductNotFound = 404"
| "status (ServerError e) = 500"
| "status r = 200"

text \<open>
  \<^verbatim>\<open>[{"id": p[0], "name": p[1], "price": float(p[2])} for p in products]\<close>;
  \<^verbatim>\<open>float(None)\<close> raises TypeError.
\<close>

fun product_list :: "('n, 'f) pylib \<Rightarrow> 'n row list \<Rightarrow> 'f product list option" where
  "product_list L [] = Some []"
| "product_list L (p # products) =
     (case snd (snd p) of
        None \<Rightarrow> None
      | Some price \<Rightarrow>
          (case product_list L products of
             None \<Rightarrow> None
           | Some ds \<Rightarrow>
               Some (\<lparr> p_id = fst p, p_name = fst (snd p), p_price = float_of_numeric L price \<rparr> # ds)))"

definition products_to_dicts :: "('n, 'f) pylib \<Rightarrow> 'n row list \<Rightarrow> ('n, 'f product list) io" where
  "products_to_dicts L products =
     (case product_list L products of None \<Rightarrow> raise TypeError | Some ds \<Rightarrow> ret ds)"

definition loads :: "('n, 'f) pylib \<Rightarrow> string \<Rightarrow> ('n, 'f product list) io" where
  "loads L s = (case json_loads L s of None \<Rightarrow> raise JSONDecodeError | Some ds \<Rightarrow> ret ds)"

definition server_error :: "'n exn \<Rightarrow> ('n, ('n, 'f) response) io" where
  "server_error e = ret (ServerError e)"

text \<open>
  \<^verbatim>\<open>get_products\<close>. The cache read and \<^verbatim>\<open>json.loads\<close> are outside the \<^verbatim>\<open>try\<close> block: an
  exception there leaves the handler. \<^verbatim>\<open>if cached_products:\<close> is false for None and for
  the empty string.
\<close>

definition get_products ::
  "('n, 'f) pylib \<Rightarrow> ('n, 'f) faults \<Rightarrow> 'f config \<Rightarrow> ('n, ('n, 'f) response) io" where
  "get_products L F cfg =
     and_then (redis_get F cfg ''products'') (\<lambda>cached_products.
       if cached_products \<noteq> None \<and> cached_products \<noteq> Some [] then
         and_then (loads L (the cached_products)) (\<lambda>data. ret (Products Cache data))
       else
         try_except
           (and_then (get_db_connection F cfg) (\<lambda>conn.
            and_then (execute F cfg SelectProducts conn) (\<lambda>cur.
            and_then (fetchall F cfg cur) (\<lambda>products.
            and_then (cur_close F cfg) (\<lambda>_.
            and_then (conn_close F cfg) (\<lambda>_.
            and_then (products_to_dicts L products) (\<lambda>ds.
            and_then (redis_setex F cfg ''products'' 120 (json_dumps L ds)) (\<lambda>_.
            ret (Products Database ds)))))))))
           server_error)"

definition add_product ::
  "('n, 'f) faults \<Rightarrow> 'f config \<Rightarrow> string option \<Rightarrow> 'n option \<Rightarrow> ('n, ('n, 'f) response) io" where
  "add_product F cfg name price =
     try_except
       (and_then (get_db_connection F cfg) (\<lambda>conn.
        and_then (execute F cfg (InsertProduct name price) conn) (\<lambda>cur.
        and_then (fetchone_0 F cfg cur) (\<lambda>product_id.
        and_then (commit F cfg cur) (\<lambda>_.
        and_then (cur_close F cfg) (\<lambda>_.
        and_then (conn_close F cfg) (\<lambda>_.
        and_then (redis_delete F cfg ''products'') (\<lambda>_.
        ret (ProductAdded product_id)))))))))
       server_error"

definition update_product ::
  "('n, 'f) faults \<Rightarrow> 'f config \<Rightarrow> int \<Rightarrow> string option \<Rightarrow> 'n option \<Rightarrow> ('n, ('n, 'f) response) io" where
  "update_product F cfg product_id name price =
     try_except
       (and_then (get_db_connection F cfg) (\<lambda>conn.
        and_then (execute F cfg (UpdateProduct name price product_id) conn) (\<lambda>cur.
        if rowcount cur = 0 then ret ProductNotFound
        else
          and_then (commit F cfg cur) (\<lambda>_.
          and_then (cur_close F cfg) (\<lambda>_.
          and_then (conn_close F cfg) (\<lambda>_.
          and_then (redis_delete F cfg ''products'') (\<lambda>_.
          ret (ProductUpdated product_id))))))))
       server_error"

definition delete_product ::
  "('n, 'f) faults \<Rightarrow> 'f config \<Rightarrow> int \<Rightarrow> ('n, ('n, 'f) response) io" where
  "delete_product F cfg product_id =
     try_except
       (and_then (get_db_connection F cfg) (\<lambda>conn.
        and_then (execute F cfg (DeleteProduct product_id) conn) (\<lambda>cur.
        if rowcount cur = 0 then ret ProductNotFound
        else
          and_then (commit F cfg cur) (\<lambda>_.
          and_then (cur_close F cfg) (\<lambda>_.
          and_then (conn_close F cfg) (\<lambda>_.
          and_then (redis_delete F cfg ''products'') (\<lambda>_.
          ret (ProductDeleted product_id))))))))
       server_error"

section \<open>Requests and runs of the service\<close>

text \<open>The four routes of the product API, with the parsed arguments of the request.\<close>

datatype 'n request =
    GET_products
  | POST_products "string option" "'n option"
  | PUT_product int "string option" "'n option"
  | DELETE_product int

definition handle ::
  "('n, 'f) pylib \<Rightarrow> ('n, 'f) faults \<Rightarrow> 'f config \<Rightarrow> 'n request \<Rightarrow> ('n, ('n, 'f) response) io" where
  "handle L F cfg req =
     (case req of
        GET_products \<Rightarrow> get_products L F cfg
      | POST_products name price \<Rightarrow> add_product F cfg name price
      | PUT_product product_id name price \<Rightarrow> update_product F cfg product_id name price
      | DELETE_product product_id \<Rightarrow> delete_product F cfg product_id)"

fun is_mutation :: "'n request \<Rightarrow> bool" where
  "is_mutation GET_products = False"
| "is_mutation (POST_products name price) = True"
| "is_mutation (PUT_product product_id name price) = True"
| "is_mutation (DELETE_product product_id) = True"

text \<open>The events a handler has logged, between the world it started in and the one it left.\<close>

definition emitted :: "'n world \<Rightarrow> 'n world \<Rightarrow> 'n event list" where
  "emitted w w' = drop (length (trace w)) (trace w')"

fun is_store_call :: "'n call \<Rightarrow> bool" where
  "is_store_call DbConnect = True"
| "is_store_call (DbExecute stmt) = True"
| "is_store_call DbFetch = True"
| "is_store_call DbCommit = True"
| "is_store_call CursorClose = True"
| "is_store_call ConnClose = True"
| "is_store_call (CacheGet key) = False"
| "is_store_call (CacheSetex key ttl) = False"
| "is_store_call (CacheDelete key) = False"

fun is_cache_delete :: "'n event \<Rightarrow> bool" where
  "is_cache_delete (Done (CacheDelete key)) = True"
| "is_cache_delete (Failed (CacheDelete key)) = True"
| "is_cache_delete e = False"

text \<open>
  A run of the service: requests served one after the other, each after some time has
  passed, each with its own fault oracle.
\<close>

fun serve ::
  "('n, 'f) pylib \<Rightarrow> 'f config \<Rightarrow> (('n, 'f) faults \<times> nat \<times> 'n request) list \<Rightarrow> 'n world \<Rightarrow> 'n world" where
  "serve L cfg [] w = w"
| "serve L cfg (step # steps) w =
     serve L cfg steps (snd (handle L (fst step) cfg (snd (snd step)) (advance (fst (snd step)) w)))"

text \<open>The snapshot in the cache, when there is one, encodes a list that is sorted by id.\<close>

definition snapshot_sorted :: "('n, 'f) pylib \<Rightarrow> 'n world \<Rightarrow> bool" where
  "snapshot_sorted L w =
     (case cache w ''products'' of
        None \<Rightarrow> True
      | Some entry \<Rightarrow> (\<exists>ds. fst entry = json_dumps L ds \<and> sorted (map p_id ds)))"

section \<open>Example values\<close>

text \<open>
  A library, a configuration and a world on which the theorems below are evaluated. The
  example serialisation writes a number in unary, a name with its length and a list
  between brackets; it stands for \<^verbatim>\<open>json.dumps\<close> and \<^verbatim>\<open>json.loads\<close> in the examples only.
\<close>

fun enc_nat :: "nat \<Rightarrow> string" where
  "enc_nat 0 = ''.''"
| "enc_nat (Suc n) = CHR ''1'' # enc_nat n"

fun dec_nat :: "string \<Rightarrow> (nat \<times> string) option" where
  "dec_nat [] = None"
| "dec_nat (c # cs) =
     (if c = CHR ''.'' then Some (0, cs)
      else if c = CHR ''1'' then (case dec_nat cs of None \<Rightarrow> None | Some (n, r) \<Rightarrow> Some (Suc n, r))
      else None)"

definition enc_int :: "int \<Rightarrow> string" where
  "enc_int i = (if i < 0 then CHR ''-'' # enc_nat (nat (- i)) else CHR ''+'' # enc_nat (nat i))"

definition dec_int :: "string \<Rightarrow> (int \<times> string) option" where
  "dec_int s =
     (case s of
        [] \<Rightarrow> None
      | c # cs \<Rightarrow>
          (case dec_nat cs of
             None \<Rightarrow> None
           | Some (n, r) \<Rightarrow>
               if c = CHR ''-'' then Some (- int n, r)
               else if c = CHR ''+'' then Some (int n, r) else None))"

definition enc_name :: "string option \<Rightarrow> string" where
  "enc_name name = (case name of None \<Rightarrow> ''N'' | Some s \<Rightarrow> CHR ''S'' # enc_nat (length s) @ s)"

definition dec_name :: "string \<Rightarrow> (string option \<times> string) option" where
  "dec_name s =
     (case s of
        [] \<Rightarrow> None
      | c # cs \<Rightarrow>
          if c = CHR ''N'' then Some (None, cs)
          else if c = CHR ''S'' then
            (case dec_nat cs of
               None \<Rightarrow> None
             | Some (n, r) \<Rightarrow> if n \<le> length r then Some (Some (take n r), drop n r) else None)
          else None)"

definition enc_product :: "int product \<Rightarrow> string" where
  "enc_product d = enc_int (p_id d) @ enc_name (p_name d) @ enc_int (p_price d)"

definition dec_product :: "string \<Rightarrow> (int product \<times> string) option" where
  "dec_product s =
     (case dec_int s of
        None \<Rightarrow> None
      | Some (i, r1) \<Rightarrow>
     (case dec_name r1 of
        None \<Rightarrow> None
      | Some (name, r2) \<Rightarrow>
     (case dec_int r2 of
        None \<Rightarrow> None
      | Some (price, r3) \<Rightarrow> Some (\<lparr> p_id = i, p_name = name, p_price = price \<rparr>, r3))))"

fun enc_products :: "int product list \<Rightarrow> string" where
  "enc_products [] = '']''"
| "enc_products (d # ds) = CHR '','' # enc_product d @ enc_products ds"

fun dec_products :: "nat \<Rightarrow> string \<Rightarrow> int product list option" where
  "dec_products fuel [] = None"
| "dec_products 0 (c # cs) = None"
| "dec_products (Suc fuel) (c # cs) =
     (if c = CHR '']'' then (if cs = [] then Some [] else None)
      else if c = CHR '','' then
        (case dec_product cs of
           None \<Rightarrow> None
         | Some (d, r) \<Rightarrow> (case dec_products fuel r of None \<Rightarrow> None | Some ds \<Rightarrow> Some (d # ds)))
      else None)"

definition example_dumps :: "int product list \<Rightarrow> string" where
  "example_dumps ds = CHR ''['' # enc_products ds"

definition example_loads :: "string \<Rightarrow> int product list option" where
  "example_loads s = (case s of [] \<Rightarrow> None | c # cs \<Rightarrow> if c = CHR ''['' then dec_products (length cs) cs else None)"

definition example_int :: "string \<Rightarrow> int option" where
  "example_int s =
     (case s of
        [c] \<Rightarrow> if 48 \<le> (of_char c :: nat) \<and> (of_char c :: nat) \<le> 57 then Some (int (of_char c) - 48) else None
      | _ \<Rightarrow> None)"

definition example_lib :: "(int, int) pylib" where
  "example_lib =
     \<lparr> int_of_str = example_int, float_of_str = example_int, float_of_numeric = (\<lambda>x. x),
       json_dumps = example_dumps, json_loads = example_loads \<rparr>"

definition example_cfg :: "int config" where
  "example_cfg =
     \<lparr> DB_HOST = Some ''db'', DB_NAME = Some ''ecommerce'', DB_USER = Some ''ecomuser'',
       DB_PASSWORD = Some ''securepassword123'', REDIS_HOST = Some ''redis'',
       DB_CONNECT_TIMEOUT = 3, REDIS_CONNECT_TIMEOUT = 3 \<rparr>"

definition example_world :: "int world" where
  "example_world =
     \<lparr> table = [(2, Some ''B'', Some 20), (1, Some ''A'', Some 10)], next_id = 3,
       cache = Map.empty, clock = 0, trace = [] \<rparr>"

definition no_faults :: "('n, 'f) faults" where
  "no_faults cfg c = False"

definition only_fails :: "'n call \<Rightarrow> ('n, 'f) faults" where
  "only_fails c cfg c' = (c' = c)"

text \<open>The example world after a list request has filled the cache.\<close>

definition warm_world :: "int world" where
  "warm_world =
     \<lparr> table = [(2, Some ''B'', Some 20), (1, Some ''A'', Some 10)], next_id = 3,
       cache = [''products'' \<mapsto>
         (example_dumps [\<lparr> p_id = 1, p_name = Some ''A'', p_price = 10 \<rparr>,
                         \<lparr> p_id = 2, p_name = Some ''B'', p_price = 20 \<rparr>], 120)],
       clock = 0, trace = [] \<rparr>"

text \<open>
  An environment that sets every variable the module reads, and a variable for the time
  to live that the module does not read; and the settings loaded from it.
\<close>

definition other_env :: environ where
  "other_env =
     [''DB_HOST'' \<mapsto> ''pg'', ''DB_NAME'' \<mapsto> ''shop'', ''DB_USER'' \<mapsto> ''app'',
      ''DB_PASSWORD'' \<mapsto> ''pw'', ''REDIS_HOST'' \<mapsto> ''cache'',
      ''DB_CONNECT_TIMEOUT'' \<mapsto> ''9'', ''REDIS_CONNECT_TIMEOUT'' \<mapsto> ''9'',
      ''CACHE_TTL'' \<mapsto> ''9'']"

definition other_cfg :: "int config" where
  "other_cfg =
     \<lparr> DB_HOST = Some ''pg'', DB_NAME = Some ''shop'', DB_USER = Some ''app'',
       DB_PASSWORD = Some ''pw'', REDIS_HOST = Some ''cache'',
       DB_CONNECT_TIMEOUT = 9, REDIS_CONNECT_TIMEOUT = 9 \<rparr>"

section \<open>The example serialisation decodes what it encodes\<close>

lemma dec_enc_nat: "dec_nat (enc_nat n @ r) = Some (n, r)"
  by (induction n) auto

lemma dec_enc_int: "dec_int (enc_int i @ r) = Some (i, r)"
  by (simp add: dec_int_def enc_int_def dec_enc_nat)

lemma dec_enc_name: "dec_name (enc_name name @ r) = Some (name, r)"
  by (cases name) (simp_all add: dec_name_def enc_name_def dec_enc_nat)

lemma dec_enc_product: "dec_product (enc_product d @ r) = Some (d, r)"
  by (simp add: dec_product_def enc_product_def dec_enc_int dec_enc_name)

lemma dec_enc_products: "length (enc_products ds) \<le> fuel \<Longrightarrow> dec_products fuel (enc_products ds) = Some ds"
proof (induction ds arbitrary: fuel)
  case Nil
  then show ?case by (cases fuel) auto
next
  case (Cons d ds)
  then obtain k where k: "fuel = Suc k" by (cases fuel) auto
  from Cons.prems k have "length (enc_products ds) \<le> k" by simp
  with Cons.IH have "dec_products k (enc_products ds) = Some ds" by blast
  with k show ?case by (simp add: dec_enc_product)
qed

lemma example_roundtrip: "example_loads (example_dumps ds) = Some ds"
  by (simp add: example_loads_def example_dumps_def dec_enc_products)


section \<open>What each handler does, call by call\<close>

text \<open>
  Each handler is a sequence of calls, and the first call that raises decides the
  response. The lemmas below write the handlers out as one case per failing call, with the
  world each case leaves behind.
\<close>

lemmas io_defs = ret_def raise_def and_then_def try_except_def external_def
  get_db_connection_def execute_def fetchall_def fetchone_0_def commit_def cur_close_def
  conn_close_def redis_get_def redis_setex_def redis_delete_def products_to_dicts_def
  loads_def server_error_def

lemma cache_lookup_frame [simp]:
  "cache_lookup (w\<lparr>trace := t\<rparr>) key = cache_lookup w key"
  "cache_lookup (w\<lparr>table := rows\<rparr>) key = cache_lookup w key"
  "cache_lookup (w\<lparr>next_id := n\<rparr>) key = cache_lookup w key"
  by (simp_all add: cache_lookup_def split: option.splits)

lemma add_product_nf:
  "add_product F cfg name price w =
    (if F cfg DbConnect then
       (Inr (ServerError (CallFailed DbConnect)), w\<lparr>trace := trace w @ [Failed DbConnect]\<rparr>)
     else if F cfg (DbExecute (InsertProduct name price)) then
       (Inr (ServerError (CallFailed (DbExecute (InsertProduct name price)))),
        w\<lparr>trace := trace w @ [Done DbConnect, Failed (DbExecute (InsertProduct name price))]\<rparr>)
     else if F cfg DbFetch then
       (Inr (ServerError (CallFailed DbFetch)),
        w\<lparr>trace := trace w @ [Done DbConnect, Done (DbExecute (InsertProduct name price)), Failed DbFetch],
          next_id := next_id w + 1\<rparr>)
     else if F cfg DbCommit then
       (Inr (ServerError (CallFailed DbCommit)),
        w\<lparr>trace := trace w @ [Done DbConnect, Done (DbExecute (InsertProduct name price)), Done DbFetch,
             Failed DbCommit],
          next_id := next_id w + 1\<rparr>)
     else if F cfg CursorClose then
       (Inr (ServerError (CallFailed CursorClose)),
        w\<lparr>trace := trace w @ [Done DbConnect, Done (DbExecute (InsertProduct name price)), Done DbFetch,
             Done DbCommit, Failed CursorClose],
          next_id := next_id w + 1, table := table w @ [(next_id w, name, price)]\<rparr>)
     else if F cfg ConnClose then
       (Inr (ServerError (CallFailed ConnClose)),
        w\<lparr>trace := trace w @ [Done DbConnect, Done (DbExecute (InsertProduct name price)), Done DbFetch,
             Done DbCommit, Done CursorClose, Failed ConnClose],
          next_id := next_id w + 1, table := table w @ [(next_id w, name, price)]\<rparr>)
     else if F cfg (CacheDelete ''products'') then
       (Inr (ServerError (CallFailed (CacheDelete ''products''))),
        w\<lparr>trace := trace w @ [Done DbConnect, Done (DbExecute (InsertProduct name price)), Done DbFetch,
             Done DbCommit, Done CursorClose, Done ConnClose, Failed (CacheDelete ''products'')],
          next_id := next_id w + 1, table := table w @ [(next_id w, name, price)]\<rparr>)
     else
       (Inr (ProductAdded (next_id w)),
        w\<lparr>trace := trace w @ [Done DbConnect, Done (DbExecute (InsertProduct name price)), Done DbFetch,
             Done DbCommit, Done CursorClose, Done ConnClose, Done (CacheDelete ''products'')],
          next_id := next_id w + 1, table := table w @ [(next_id w, name, price)],
          cache := (cache w)(''products'' := None)\<rparr>))"
  by (simp add: add_product_def io_defs run_statement_def advance_sequence_def)


lemma update_product_nf:
  "update_product F cfg product_id name price w =
    (if F cfg DbConnect then
       (Inr (ServerError (CallFailed DbConnect)), w\<lparr>trace := trace w @ [Failed DbConnect]\<rparr>)
     else if F cfg (DbExecute (UpdateProduct name price product_id)) then
       (Inr (ServerError (CallFailed (DbExecute (UpdateProduct name price product_id)))),
        w\<lparr>trace := trace w @ [Done DbConnect, Failed (DbExecute (UpdateProduct name price product_id))]\<rparr>)
     else if filter (\<lambda>r. fst r = product_id) (table w) = [] then
       (Inr ProductNotFound,
        w\<lparr>trace := trace w @ [Done DbConnect, Done (DbExecute (UpdateProduct name price product_id))]\<rparr>)
     else if F cfg DbCommit then
       (Inr (ServerError (CallFailed DbCommit)),
        w\<lparr>trace := trace w @ [Done DbConnect, Done (DbExecute (UpdateProduct name price product_id)), Failed DbCommit]\<rparr>)
     else if F cfg CursorClose then
       (Inr (ServerError (CallFailed CursorClose)),
        w\<lparr>trace := trace w @ [Done DbConnect, Done (DbExecute (UpdateProduct name price product_id)), Done DbCommit,
             Failed CursorClose],
          table := map (\<lambda>r. if fst r = product_id then (product_id, name, price) else r) (table w)\<rparr>)
     else if F cfg ConnClose then
       (Inr (ServerError (CallFailed ConnClose)),
        w\<lparr>trace := trace w @ [Done DbConnect, Done (DbExecute (UpdateProduct name price product_id)), Done DbCommit,
             Done CursorClose, Failed ConnClose],
          table := map (\<lambda>r. if fst r = product_id then (product_id, name, price) else r) (table w)\<rparr>)
     else if F cfg (CacheDelete ''products'') then
       (Inr (ServerError (CallFailed (CacheDelete ''products''))),
        w\<lparr>trace := trace w @ [Done DbConnect, Done (DbExecute (UpdateProduct name price product_id)), Done DbCommit,
             Done CursorClose, Done ConnClose, Failed (CacheDelete ''products'')],
          table := map (\<lambda>r. if fst r = product_id then (product_id, name, price) else r) (table w)\<rparr>)
     else
       (Inr (ProductUpdated product_id),
        w\<lparr>trace := trace w @ [Done DbConnect, Done (DbExecute (UpdateProduct name price product_id)), Done DbCommit,
             Done CursorClose, Done ConnClose, Done (CacheDelete ''products'')],
          table := map (\<lambda>r. if fst r = product_id then (product_id, name, price) else r) (table w),
          cache := (cache w)(''products'' := None)\<rparr>))"
  by (simp add: update_product_def io_defs run_statement_def advance_sequence_def)

lemma delete_product_nf:
  "delete_product F cfg product_id w =
    (if F cfg DbConnect then
       (Inr (ServerError (CallFailed DbConnect)), w\<lparr>trace := trace w @ [Failed DbConnect]\<rparr>)
     else if F cfg (DbExecute (DeleteProduct product_id)) then
       (Inr (ServerError (CallFailed (DbExecute (DeleteProduct product_id)))),
        w\<lparr>trace := trace w @ [Done DbConnect, Failed (DbExecute (DeleteProduct product_id))]\<rparr>)
     else if filter (\<lambda>r. fst r = product_id) (table w) = [] then
       (Inr ProductNotFound,
        w\<lparr>trace := trace w @ [Done DbConnect, Done (DbExecute (DeleteProduct product_id))]\<rparr>)
     else if F cfg DbCommit then
       (Inr (ServerError (CallFailed DbCommit)),
        w\<lparr>trace := trace w @ [Done DbConnect, Done (DbExecute (DeleteProduct product_id)), Failed DbCommit]\<rparr>)
     else if F cfg CursorClose then
       (Inr (ServerError (CallFailed CursorClose)),
        w\<lparr>trace := trace w @ [Done DbConnect, Done (DbExecute (DeleteProduct product_id)), Done DbCommit,
             Failed CursorClose],
          table := filter (\<lambda>r. fst r \<noteq> product_id) (table w)\<rparr>)
     else if F cfg ConnClose then
       (Inr (ServerError (CallFailed ConnClose)),
        w\<lparr>trace := trace w @ [Done DbConnect, Done (DbExecute (DeleteProduct product_id)), Done DbCommit,
             Done CursorClose, Failed ConnClose],
          table := filter (\<lambda>r. fst r \<noteq> product_id) (table w)\<rparr>)
     else if F cfg (CacheDelete ''products'') then
       (Inr (ServerError (CallFailed (CacheDelete ''products''))),
        w\<lparr>trace := trace w @ [Done DbConnect, Done (DbExecute (DeleteProduct product_id)), Done DbCommit,
             Done CursorClose, Done ConnClose, Failed (CacheDelete ''products'')],
          table := filter (\<lambda>r. fst r \<noteq> product_id) (table w)\<rparr>)
     else
       (Inr (ProductDeleted product_id),
        w\<lparr>trace := trace w @ [Done DbConnect, Done (DbExecute (DeleteProduct product_id)), Done DbCommit,
             Done CursorClose, Done ConnClose, Done (CacheDelete ''products'')],
          table := filter (\<lambda>r. fst r \<noteq> product_id) (table w),
          cache := (cache w)(''products'' := None)\<rparr>))"
  by (simp add: delete_product_def io_defs run_statement_def advance_sequence_def)

lemma get_products_get_fails:
  "F cfg (CacheGet ''products'') \<Longrightarrow>
   get_products L F cfg w =
     (Inl (CallFailed (CacheGet ''products'')), w\<lparr>trace := trace w @ [Failed (CacheGet ''products'')]\<rparr>)"
  by (simp add: get_products_def io_defs)

lemma get_products_hit:
  assumes "\<not> F cfg (CacheGet ''products'')" "cache_lookup w ''products'' = Some s" "s \<noteq> []"
  shows "get_products L F cfg w =
    ((case json_loads L s of None \<Rightarrow> Inl JSONDecodeError | Some ds \<Rightarrow> Inr (Products Cache ds)),
     w\<lparr>trace := trace w @ [Done (CacheGet ''products'')]\<rparr>)"
  using assms
  by (simp add: get_products_def io_defs split: option.splits)

lemma get_products_miss:
  assumes "\<not> F cfg (CacheGet ''products'')"
    "cache_lookup w ''products'' = None \<or> cache_lookup w ''products'' = Some []"
  shows "get_products L F cfg w =
    (if F cfg DbConnect then
       (Inr (ServerError (CallFailed DbConnect)),
        w\<lparr>trace := trace w @ [Done (CacheGet ''products''), Failed DbConnect]\<rparr>)
     else if F cfg (DbExecute SelectProducts) then
       (Inr (ServerError (CallFailed (DbExecute SelectProducts))),
        w\<lparr>trace := trace w @ [Done (CacheGet ''products''), Done DbConnect,
             Failed (DbExecute SelectProducts)]\<rparr>)
     else if F cfg DbFetch then
       (Inr (ServerError (CallFailed DbFetch)),
        w\<lparr>trace := trace w @ [Done (CacheGet ''products''), Done DbConnect,
             Done (DbExecute SelectProducts), Failed DbFetch]\<rparr>)
     else if F cfg CursorClose then
       (Inr (ServerError (CallFailed CursorClose)),
        w\<lparr>trace := trace w @ [Done (CacheGet ''products''), Done DbConnect,
             Done (DbExecute SelectProducts), Done DbFetch, Failed CursorClose]\<rparr>)
     else if F cfg ConnClose then
       (Inr (ServerError (CallFailed ConnClose)),
        w\<lparr>trace := trace w @ [Done (CacheGet ''products''), Done DbConnect,
             Done (DbExecute SelectProducts), Done DbFetch, Done CursorClose, Failed ConnClose]\<rparr>)
     else
       (case product_list L (sort_key fst (table w)) of
          None \<Rightarrow>
            (Inr (ServerError TypeError),
             w\<lparr>trace := trace w @ [Done (CacheGet ''products''), Done DbConnect,
                  Done (DbExecute SelectProducts), Done DbFetch, Done CursorClose, Done ConnClose]\<rparr>)
        | Some ds \<Rightarrow>
            if F cfg (CacheSetex ''products'' 120) then
              (Inr (ServerError (CallFailed (CacheSetex ''products'' 120))),
               w\<lparr>trace := trace w @ [Done (CacheGet ''products''), Done DbConnect,
                    Done (DbExecute SelectProducts), Done DbFetch, Done CursorClose, Done ConnClose,
                    Failed (CacheSetex ''products'' 120)]\<rparr>)
            else
              (Inr (Products Database ds),
               w\<lparr>trace := trace w @ [Done (CacheGet ''products''), Done DbConnect,
                    Done (DbExecute SelectProducts), Done DbFetch, Done CursorClose, Done ConnClose,
                    Done (CacheSetex ''products'' 120)],
                 cache := (cache w)(''products'' \<mapsto> (json_dumps L ds, clock w + 120))\<rparr>)))"
  using assms
  by (auto simp add: get_products_def io_defs run_statement_def advance_sequence_def split: option.splits)


section \<open>The handlers on the example values\<close>

lemma example_products:
  "product_list example_lib (sort_key fst [(2, Some ''B'', Some 20), (1, Some ''A'', Some 10)]) =
     Some [\<lparr> p_id = 1, p_name = Some ''A'', p_price = 10 \<rparr>, \<lparr> p_id = 2, p_name = Some ''B'', p_price = 20 \<rparr>]"
  by (simp add: example_lib_def)

lemma example_products_added:
  "product_list example_lib
     (sort_key fst [(2, Some ''B'', Some 20), (1, Some ''A'', Some 10), (3, Some ''C'', Some 5)]) =
     Some [\<lparr> p_id = 1, p_name = Some ''A'', p_price = 10 \<rparr>, \<lparr> p_id = 2, p_name = Some ''B'', p_price = 20 \<rparr>,
           \<lparr> p_id = 3, p_name = Some ''C'', p_price = 5 \<rparr>]"
  by (simp add: example_lib_def)

lemma warm_lookup:
  "cache_lookup (advance 1 warm_world) ''products'' = Some (example_dumps [\<lparr> p_id = 1, p_name = Some ''A'', p_price = 10 \<rparr>, \<lparr> p_id = 2, p_name = Some ''B'', p_price = 20 \<rparr>])"
  by (simp add: cache_lookup_def advance_def warm_world_def)

lemma example_dumps_nonempty: "example_dumps ds \<noteq> []"
  by (simp add: example_dumps_def)

lemma example_lib_roundtrip: "json_loads example_lib (json_dumps example_lib ds) = Some ds"
  by (simp add: example_lib_def example_roundtrip)

lemma example_run:
  "serve example_lib example_cfg
     [(no_faults, 0, GET_products), (no_faults, 5, POST_products (Some ''C'') (Some 5)),
      (no_faults, 5, GET_products)] example_world =
   \<lparr> table = [(2, Some ''B'', Some 20), (1, Some ''A'', Some 10), (3, Some ''C'', Some 5)], next_id = 4,
     cache = [''products'' \<mapsto> (example_dumps [\<lparr> p_id = 1, p_name = Some ''A'', p_price = 10 \<rparr>, \<lparr> p_id = 2, p_name = Some ''B'', p_price = 20 \<rparr>,
            \<lparr> p_id = 3, p_name = Some ''C'', p_price = 5 \<rparr>], 130)],
     clock = 10,
     trace = [Done (CacheGet ''products''), Done DbConnect, Done (DbExecute SelectProducts), Done DbFetch,
       Done CursorClose, Done ConnClose, Done (CacheSetex ''products'' 120),
       Done DbConnect, Done (DbExecute (InsertProduct (Some ''C'') (Some 5))), Done DbFetch, Done DbCommit,
       Done CursorClose, Done ConnClose, Done (CacheDelete ''products''),
       Done (CacheGet ''products''), Done DbConnect, Done (DbExecute SelectProducts), Done DbFetch,
       Done CursorClose, Done ConnClose, Done (CacheSetex ''products'' 120)] \<rparr>"
  by (simp add: handle_def get_products_miss add_product_nf no_faults_def example_world_def
      advance_def cache_lookup_def example_lib_def)

lemma example_miss:
  "get_products example_lib no_faults cfg example_world =
     (Inr (Products Database [\<lparr> p_id = 1, p_name = Some ''A'', p_price = 10 \<rparr>, \<lparr> p_id = 2, p_name = Some ''B'', p_price = 20 \<rparr>]),
      example_world\<lparr>trace := [Done (CacheGet ''products''), Done DbConnect, Done (DbExecute SelectProducts),
          Done DbFetch, Done CursorClose, Done ConnClose, Done (CacheSetex ''products'' 120)],
        cache := [''products'' \<mapsto> (example_dumps [\<lparr> p_id = 1, p_name = Some ''A'', p_price = 10 \<rparr>, \<lparr> p_id = 2, p_name = Some ''B'', p_price = 20 \<rparr>], 120)]\<rparr>)"
  by (simp add: get_products_miss no_faults_def example_world_def cache_lookup_def example_lib_def)

section \<open>Resolution of secrets\<close>

lemma get_secret_file:
  "env (v @ ''_FILE'') = Some path \<Longrightarrow> path \<noteq> [] \<Longrightarrow> fs path = Some contents \<Longrightarrow>
      get_secret env fs v d = Some (py_strip contents)"
  by (simp add: get_secret_def getenv_def)

lemma get_secret_no_file:
  "env (v @ ''_FILE'') = None \<or> env (v @ ''_FILE'') = Some [] \<or>
        (\<exists>missing. env (v @ ''_FILE'') = Some missing \<and> fs missing = None) \<Longrightarrow>
      get_secret env fs v d = getenv env v d"
  by (auto simp add: get_secret_def getenv_def)

lemma load_config_secrets:
  "load_config L env fs = Some cfg \<Longrightarrow>
      DB_NAME cfg = get_secret env fs ''DB_NAME'' (Some ''ecommerce'') \<and>
      DB_USER cfg = get_secret env fs ''DB_USER'' (Some ''ecomuser'') \<and>
      DB_PASSWORD cfg = get_secret env fs ''DB_PASSWORD'' (Some ''securepassword123'')"
  unfolding load_config_def
  by (auto split: option.splits)


text \<open>
  C9. A secret-backed option is resolved in this order: when the variable with the suffix
  \<^verbatim>\<open>_FILE\<close> names a path that exists, the value is the stripped contents of that file;
  otherwise the plain variable is used when it is set; otherwise the default is returned.
  The database name, user and password are the options resolved this way, with the
  defaults \<^verbatim>\<open>ecommerce\<close>, \<^verbatim>\<open>ecomuser\<close> and \<^verbatim>\<open>securepassword123\<close>.
\<close>

theorem get_secret_resolution_order:
  "(env (v @ ''_FILE'') = Some path \<and> path \<noteq> [] \<and> fs path = Some contents \<longrightarrow>
      get_secret env fs v d = Some (py_strip contents))
   \<and> (env (v @ ''_FILE'') = None \<or> env (v @ ''_FILE'') = Some [] \<or>
        (\<exists>missing. env (v @ ''_FILE'') = Some missing \<and> fs missing = None) \<longrightarrow>
      (env v = Some plain \<longrightarrow> get_secret env fs v d = Some plain) \<and>
      (env v = None \<longrightarrow> get_secret env fs v d = d))
   \<and> (load_config L env fs = Some cfg \<longrightarrow>
      DB_NAME cfg = get_secret env fs ''DB_NAME'' (Some ''ecommerce'') \<and>
      DB_USER cfg = get_secret env fs ''DB_USER'' (Some ''ecomuser'') \<and>
      DB_PASSWORD cfg = get_secret env fs ''DB_PASSWORD'' (Some ''securepassword123''))"
proof (intro conjI impI)
  assume "env (v @ ''_FILE'') = Some path \<and> path \<noteq> [] \<and> fs path = Some contents"
  then show "get_secret env fs v d = Some (py_strip contents)"
    by (simp add: get_secret_file)
next
  assume "env (v @ ''_FILE'') = None \<or> env (v @ ''_FILE'') = Some [] \<or>
        (\<exists>missing. env (v @ ''_FILE'') = Some missing \<and> fs missing = None)"
    and "env v = Some plain"
  then show "get_secret env fs v d = Some plain"
    by (simp only: get_secret_no_file getenv_def option.case)
next
  assume "env (v @ ''_FILE'') = None \<or> env (v @ ''_FILE'') = Some [] \<or>
        (\<exists>missing. env (v @ ''_FILE'') = Some missing \<and> fs missing = None)"
    and "env v = None"
  then show "get_secret env fs v d = d"
    by (simp only: get_secret_no_file getenv_def option.case)
next
  assume "load_config L env fs = Some cfg"
  then show "DB_NAME cfg = get_secret env fs ''DB_NAME'' (Some ''ecommerce'')"
    and "DB_USER cfg = get_secret env fs ''DB_USER'' (Some ''ecomuser'')"
    and "DB_PASSWORD cfg = get_secret env fs ''DB_PASSWORD'' (Some ''securepassword123'')"
    by (simp_all add: load_config_secrets)
qed

theorem get_secret_resolution_order_witness:
  "get_secret [''DB_PASSWORD_FILE'' \<mapsto> ''/run/secrets/db_password'', ''DB_PASSWORD'' \<mapsto> ''plain'']
     [''/run/secrets/db_password'' \<mapsto> '' s3cret\<newline>''] ''DB_PASSWORD'' (Some ''securepassword123'')
     = Some ''s3cret''
   \<and> get_secret [''DB_PASSWORD_FILE'' \<mapsto> ''/run/secrets/db_password'', ''DB_PASSWORD'' \<mapsto> ''plain'']
     Map.empty ''DB_PASSWORD'' (Some ''securepassword123'') = Some ''plain''
   \<and> get_secret Map.empty Map.empty ''DB_PASSWORD'' (Some ''securepassword123'')
     = Some ''securepassword123''
   \<and> map_option DB_PASSWORD (load_config example_lib
       [''DB_PASSWORD_FILE'' \<mapsto> ''/run/secrets/db_password'', ''DB_PASSWORD'' \<mapsto> ''plain'']
       [''/run/secrets/db_password'' \<mapsto> '' s3cret\<newline>'']) = Some (Some ''s3cret'')"
proof -
  let ?env = "[''DB_PASSWORD_FILE'' \<mapsto> ''/run/secrets/db_password'', ''DB_PASSWORD'' \<mapsto> ''plain'']"
  let ?fs = "[''/run/secrets/db_password'' \<mapsto> '' s3cret\<newline>'']"
  let ?d = "Some ''securepassword123''"
  have "load_config example_lib ?env ?fs \<noteq> None"
    by (simp add: load_config_def getenv_def example_lib_def example_int_def)
  then obtain cfg where c: "load_config example_lib ?env ?fs = Some cfg" by blast
  have fvar: "?env (''DB_PASSWORD'' @ ''_FILE'') = Some ''/run/secrets/db_password''"
    and path: "?fs ''/run/secrets/db_password'' = Some '' s3cret\<newline>''"
    and plain: "?env ''DB_PASSWORD'' = Some ''plain''"
    and strip: "py_strip '' s3cret\<newline>'' = ''s3cret''"
    by (simp_all add: py_strip_def py_isspace_def)
  note order = get_secret_resolution_order
    [where v = "''DB_PASSWORD''" and d = ?d and L = example_lib and cfg = cfg]
  have a: "get_secret ?env ?fs ''DB_PASSWORD'' ?d = Some ''s3cret''"
    using order [where env = ?env and fs = ?fs and path = "''/run/secrets/db_password''"
        and contents = "'' s3cret\<newline>''" and plain = "''plain''"] fvar path strip
    by simp
  have b: "get_secret ?env Map.empty ''DB_PASSWORD'' ?d = Some ''plain''"
    using order [where env = ?env and fs = Map.empty and path = "''/run/secrets/db_password''"
        and contents = "[]" and plain = "''plain''"] fvar plain
    by simp
  have e: "get_secret Map.empty Map.empty ''DB_PASSWORD'' ?d = ?d"
    using order [where env = Map.empty and fs = Map.empty and path = "[]"
        and contents = "[]" and plain = "[]"]
    by simp
  have f: "DB_PASSWORD cfg = get_secret ?env ?fs ''DB_PASSWORD'' ?d"
    using order [where env = ?env and fs = ?fs and path = "''/run/secrets/db_password''"
        and contents = "'' s3cret\<newline>''" and plain = "''plain''"] c
    by blast
  have g: "map_option DB_PASSWORD (load_config example_lib ?env ?fs) = Some (Some ''s3cret'')"
    by (simp only: c option.map f a)
  from a b e g show ?thesis by blast
qed


section \<open>Invalidation on write\<close>

lemma mutation_success:
  assumes "is_mutation req" "handle L F cfg req w = (Inr r, w')" "status r = 200"
  shows "cache w' = (cache w)(''products'' := None) \<and> clock w' = clock w \<and>
         emitted w w' \<noteq> [] \<and> last (emitted w w') = Done (CacheDelete ''products'')"
proof (cases req)
  case GET_products
  with assms(1) show ?thesis by simp
next
  case (POST_products name price)
  with assms(2,3) show ?thesis
    by (auto simp add: handle_def add_product_nf emitted_def split: if_splits)
next
  case (PUT_product product_id name price)
  with assms(2,3) show ?thesis
    by (auto simp add: handle_def update_product_nf emitted_def split: if_splits)
next
  case (DELETE_product product_id)
  with assms(2,3) show ?thesis
    by (auto simp add: handle_def delete_product_nf emitted_def split: if_splits)
qed

lemma get_products_cache_only_on_hit:
  assumes "fst (get_products L F cfg w) = Inr (Products Cache ds)"
  shows "\<exists>s. cache_lookup w ''products'' = Some s \<and> s \<noteq> [] \<and> json_loads L s = Some ds"
proof (cases "F cfg (CacheGet ''products'')")
  case True
  with assms show ?thesis by (simp add: get_products_get_fails)
next
  case nf: False
  show ?thesis
  proof (cases "cache_lookup w ''products'' = None \<or> cache_lookup w ''products'' = Some []")
    case True
    with assms nf show ?thesis
      by (simp add: get_products_miss split: if_splits option.splits)
  next
    case False
    then obtain s where s: "cache_lookup w ''products'' = Some s" "s \<noteq> []" by auto
    with assms nf show ?thesis
      by (simp add: get_products_hit split: option.splits)
  qed
qed

lemma cache_lookup_absent:
  "cache w key = None \<Longrightarrow> cache_lookup (advance d w) key = None"
  by (simp add: cache_lookup_def advance_def)

text \<open>
  C1. When a create, update or delete returns success, the call that deleted the cache key
  \<^verbatim>\<open>products\<close> is the last one the handler made: the key is absent when the handler
  returns. The next list request, however much later and whatever fails in it, is not served
  from the cache, and when no call of it fails it returns the rows of the store with the
  source \<^verbatim>\<open>database\<close>.
\<close>

theorem invalidation_on_write:
  assumes "is_mutation req" and "handle L F cfg req w = (Inr r, w')" and "status r = 200"
  shows "emitted w w' \<noteq> [] \<and> last (emitted w w') = Done (CacheDelete ''products'')
     \<and> cache w' ''products'' = None
     \<and> cache_lookup (advance d w') ''products'' = None
     \<and> fst (get_products L F' cfg' (advance d w')) \<noteq> Inr (Products Cache cached)
     \<and> ((\<forall>c. \<not> F' cfg' c) \<and> product_list L (sort_key fst (table w')) = Some ds \<longrightarrow>
          fst (get_products L F' cfg' (advance d w')) = Inr (Products Database ds))"
proof -
  from mutation_success [OF assms]
  have c: "cache w' ''products'' = None"
    and l: "emitted w w' \<noteq> [] \<and> last (emitted w w') = Done (CacheDelete ''products'')"
    by simp_all
  have a: "cache_lookup (advance d w') ''products'' = None"
    using c by (rule cache_lookup_absent)
  have n: "fst (get_products L F' cfg' (advance d w')) \<noteq> Inr (Products Cache cached)"
    using get_products_cache_only_on_hit [of L F' cfg' "advance d w'" cached] a by auto
  have m: "fst (get_products L F' cfg' (advance d w')) = Inr (Products Database ds)"
    if "\<forall>c. \<not> F' cfg' c" "product_list L (sort_key fst (table w')) = Some ds"
    using that a by (simp add: get_products_miss advance_def)
  from c l a n m show ?thesis by blast
qed

theorem invalidation_on_write_witness:
  "is_mutation (POST_products (Some ''C'') (Some (5 :: int)))
   \<and> fst (handle example_lib no_faults example_cfg (POST_products (Some ''C'') (Some 5)) warm_world)
       = Inr (ProductAdded 3)
   \<and> status (ProductAdded 3 :: (int, int) response) = 200
   \<and> cache warm_world ''products'' \<noteq> None
   \<and> cache (snd (handle example_lib no_faults example_cfg (POST_products (Some ''C'') (Some 5)) warm_world))
        ''products'' = None
   \<and> fst (get_products example_lib no_faults example_cfg
        (advance 1 (snd (handle example_lib no_faults example_cfg (POST_products (Some ''C'') (Some 5)) warm_world))))
       = Inr (Products Database
           [\<lparr> p_id = 1, p_name = Some ''A'', p_price = 10 \<rparr>, \<lparr> p_id = 2, p_name = Some ''B'', p_price = 20 \<rparr>,
            \<lparr> p_id = 3, p_name = Some ''C'', p_price = 5 \<rparr>])"
proof -
  let ?req = "POST_products (Some ''C'') (Some (5 :: int))"
  let ?run = "handle example_lib no_faults example_cfg ?req warm_world"
  have r: "fst ?run = Inr (ProductAdded 3)"
    by (simp add: handle_def add_product_nf no_faults_def warm_world_def)
  have t: "table (snd ?run) = [(2, Some ''B'', Some 20), (1, Some ''A'', Some 10), (3, Some ''C'', Some 5)]"
    by (simp add: handle_def add_product_nf no_faults_def warm_world_def)
  have h: "?run = (Inr (ProductAdded 3), snd ?run)"
    using r by (simp add: prod_eq_iff)
  have m: "is_mutation ?req" and s: "status (ProductAdded 3 :: (int, int) response) = 200"
    and warm: "cache warm_world ''products'' \<noteq> None"
    by (simp_all add: warm_world_def)
  have nf: "\<forall>c. \<not> no_faults example_cfg (c :: int call)"
    by (simp add: no_faults_def)
  note inst = invalidation_on_write [OF m h s, where d = 1 and F' = no_faults and cfg' = example_cfg
      and cached = "[]"
      and ds = "[\<lparr> p_id = 1, p_name = Some ''A'', p_price = 10 \<rparr>, \<lparr> p_id = 2, p_name = Some ''B'', p_price = 20 \<rparr>,
            \<lparr> p_id = 3, p_name = Some ''C'', p_price = 5 \<rparr>]"]
  from inst nf t example_products_added m r s warm show ?thesis
    by simp
qed

section \<open>The commit comes before the invalidation\<close>

lemma delete_after_commit:
  assumes "es = before @ e # after" "is_cache_delete e"
    "es = pre @ [Done DbCommit, Done CursorClose, Done ConnClose, last_event]
      \<or> (\<forall>x \<in> set es. \<not> is_cache_delete x)"
    "\<forall>x \<in> set pre. \<not> is_cache_delete x"
  shows "Done DbCommit \<in> set before"
proof -
  from assms(1,2) have "\<not> (\<forall>x \<in> set es. \<not> is_cache_delete x)" by auto
  with assms(3) have "es = pre @ [Done DbCommit, Done CursorClose, Done ConnClose, last_event]"
    by blast
  with assms(1) have es: "before @ e # after = pre @ [Done DbCommit, Done CursorClose, Done ConnClose, last_event]"
    by simp
  have "e \<notin> set pre" using assms(2,4) by auto
  then obtain mid where "before = pre @ Done DbCommit # mid"
    using es assms(2)
    by (auto simp: append_eq_append_conv2 append_eq_Cons_conv Cons_eq_append_conv)
  then show ?thesis by simp
qed

text \<open>
  C2. In the calls made by one create, update or delete, every deletion of the cache key,
  whether it succeeds or fails, comes after a commit that succeeded.
\<close>

theorem commit_before_invalidation:
  assumes "is_mutation req" and "handle L F cfg req w = (r, w')"
    and "emitted w w' = before @ e # after" and "is_cache_delete e"
  shows "trace w' = trace w @ emitted w w' \<and> Done DbCommit \<in> set before"
proof (cases req)
  case GET_products
  with assms(1) show ?thesis by simp
next
  case (POST_products name price)
  with assms(2) have t: "trace w' = trace w @ emitted w w'"
    and "emitted w w' = [Done DbConnect, Done (DbExecute (InsertProduct name price)), Done DbFetch]
           @ [Done DbCommit, Done CursorClose, Done ConnClose, last (emitted w w')]
         \<or> (\<forall>x \<in> set (emitted w w'). \<not> is_cache_delete x)"
    by (auto simp add: handle_def add_product_nf emitted_def split: if_splits)
  from delete_after_commit [OF assms(3,4) this(2)] t show ?thesis by simp
next
  case (PUT_product product_id name price)
  with assms(2) have t: "trace w' = trace w @ emitted w w'"
    and "emitted w w' = [Done DbConnect, Done (DbExecute (UpdateProduct name price product_id))]
           @ [Done DbCommit, Done CursorClose, Done ConnClose, last (emitted w w')]
         \<or> (\<forall>x \<in> set (emitted w w'). \<not> is_cache_delete x)"
    by (auto simp add: handle_def update_product_nf emitted_def split: if_splits)
  from delete_after_commit [OF assms(3,4) this(2)] t show ?thesis by simp
next
  case (DELETE_product product_id)
  with assms(2) have t: "trace w' = trace w @ emitted w w'"
    and "emitted w w' = [Done DbConnect, Done (DbExecute (DeleteProduct product_id))]
           @ [Done DbCommit, Done CursorClose, Done ConnClose, last (emitted w w')]
         \<or> (\<forall>x \<in> set (emitted w w'). \<not> is_cache_delete x)"
    by (auto simp add: handle_def delete_product_nf emitted_def split: if_splits)
  from delete_after_commit [OF assms(3,4) this(2)] t show ?thesis by simp
qed

theorem commit_before_invalidation_witness:
  "is_mutation (DELETE_product 1 :: int request)
   \<and> emitted warm_world (snd (handle example_lib no_faults example_cfg (DELETE_product 1) warm_world)) =
       [Done DbConnect, Done (DbExecute (DeleteProduct 1)), Done DbCommit, Done CursorClose, Done ConnClose]
         @ Done (CacheDelete ''products'') # []
   \<and> is_cache_delete (Done (CacheDelete ''products'') :: int event)
   \<and> Done DbCommit \<in> set [Done DbConnect, Done (DbExecute (DeleteProduct 1)), Done DbCommit,
        Done CursorClose, Done ConnClose :: int event]"
proof -
  let ?run = "handle example_lib no_faults example_cfg (DELETE_product 1) warm_world"
  have m: "is_mutation (DELETE_product 1 :: int request)"
    and c: "is_cache_delete (Done (CacheDelete ''products'') :: int event)"
    by simp_all
  have h: "?run = (fst ?run, snd ?run)" by simp
  have e: "emitted warm_world (snd ?run) =
       [Done DbConnect, Done (DbExecute (DeleteProduct 1)), Done DbCommit, Done CursorClose, Done ConnClose]
         @ Done (CacheDelete ''products'') # []"
    by (simp add: handle_def delete_product_nf no_faults_def warm_world_def emitted_def)
  from commit_before_invalidation [OF m h e c] m e c show ?thesis by blast
qed

section \<open>A failing store call leaves the cache alone\<close>

text \<open>
  C10. When a call to the store raises in a create, update or delete (the connection, the
  statement, the commit, or any other store call), the response is the error of that call,
  the cache is exactly as it was, and no deletion of a cache key is issued. So a deletion
  is only issued when every store call before it succeeded.
\<close>

theorem store_failure_skips_invalidation:
  assumes "is_mutation req" and "handle L F cfg req w = (r, w')"
    and "Failed c \<in> set (emitted w w')" and "is_store_call c"
  shows "r = Inr (ServerError (CallFailed c)) \<and> cache w' = cache w \<and>
         (\<forall>x \<in> set (emitted w w'). \<not> is_cache_delete x)"
proof (cases req)
  case GET_products
  with assms(1) show ?thesis by simp
next
  case (POST_products name price)
  with assms(2,3,4) show ?thesis
    by (auto simp add: handle_def add_product_nf emitted_def split: if_splits)
next
  case (PUT_product product_id name price)
  with assms(2,3,4) show ?thesis
    by (auto simp add: handle_def update_product_nf emitted_def split: if_splits)
next
  case (DELETE_product product_id)
  with assms(2,3,4) show ?thesis
    by (auto simp add: handle_def delete_product_nf emitted_def split: if_splits)
qed

theorem store_failure_skips_invalidation_witness:
  "is_mutation (POST_products (Some ''C'') (Some (5 :: int)))
   \<and> Failed DbCommit \<in> set (emitted warm_world
        (snd (handle example_lib (only_fails DbCommit) example_cfg (POST_products (Some ''C'') (Some 5)) warm_world)))
   \<and> is_store_call (DbCommit :: int call)
   \<and> fst (handle example_lib (only_fails DbCommit) example_cfg (POST_products (Some ''C'') (Some 5)) warm_world)
       = Inr (ServerError (CallFailed DbCommit))
   \<and> cache (snd (handle example_lib (only_fails DbCommit) example_cfg (POST_products (Some ''C'') (Some 5)) warm_world))
       = cache warm_world"
proof -
  let ?req = "POST_products (Some ''C'') (Some (5 :: int))"
  let ?run = "handle example_lib (only_fails DbCommit) example_cfg ?req warm_world"
  have m: "is_mutation ?req" and c: "is_store_call (DbCommit :: int call)"
    by simp_all
  have h: "?run = (fst ?run, snd ?run)" by simp
  have f: "Failed DbCommit \<in> set (emitted warm_world (snd ?run))"
    by (simp add: handle_def add_product_nf only_fails_def warm_world_def emitted_def)
  from store_failure_skips_invalidation [OF m h f c] m f c show ?thesis by blast
qed

section \<open>An unknown id does not invalidate\<close>

lemma cache_lookup_cong:
  "cache w1 = cache w2 \<Longrightarrow> clock w1 = clock w2 \<Longrightarrow> cache_lookup w1 key = cache_lookup w2 key"
  by (simp add: cache_lookup_def split: option.splits)

lemma get_products_frame:
  assumes "cache w1 = cache w2" "clock w1 = clock w2" "table w1 = table w2"
  shows "fst (get_products L F cfg w1) = fst (get_products L F cfg w2)"
proof (cases "F cfg (CacheGet ''products'')")
  case True
  then show ?thesis by (simp add: get_products_get_fails)
next
  case nf: False
  have eq: "cache_lookup w1 ''products'' = cache_lookup w2 ''products''"
    using assms(1,2) by (rule cache_lookup_cong)
  show ?thesis
  proof (cases "cache_lookup w1 ''products'' = None \<or> cache_lookup w1 ''products'' = Some []")
    case True
    then have "cache_lookup w2 ''products'' = None \<or> cache_lookup w2 ''products'' = Some []"
      by (simp add: eq)
    with True nf assms(3) show ?thesis
      by (simp add: get_products_miss split: option.splits)
  next
    case False
    then obtain s where s: "cache_lookup w1 ''products'' = Some s" "s \<noteq> []" by auto
    then have "cache_lookup w2 ''products'' = Some s" by (simp add: eq)
    with s nf show ?thesis
      by (simp add: get_products_hit)
  qed
qed

lemma not_found_frame:
  assumes "product_id \<notin> fst ` set (table w)"
    and "req = PUT_product product_id name price \<or> req = DELETE_product product_id"
    and "handle L F cfg req w = (r, w')"
  shows "cache w' = cache w \<and> table w' = table w \<and> clock w' = clock w \<and>
         (\<forall>x \<in> set (emitted w w'). \<not> is_cache_delete x) \<and>
         (\<not> F cfg DbConnect \<and> \<not> F cfg (DbExecute (UpdateProduct name price product_id)) \<and>
          \<not> F cfg (DbExecute (DeleteProduct product_id)) \<longrightarrow> r = Inr ProductNotFound)"
proof -
  from assms(1) have none: "filter (\<lambda>r. fst r = product_id) (table w) = []"
    by (auto simp: filter_empty_conv)
  from assms(2) show ?thesis
  proof
    assume "req = PUT_product product_id name price"
    with assms(3) none show ?thesis
      by (auto simp add: handle_def update_product_nf emitted_def split: if_splits)
  next
    assume "req = DELETE_product product_id"
    with assms(3) none show ?thesis
      by (auto simp add: handle_def delete_product_nf emitted_def split: if_splits)
  qed
qed

text \<open>
  C4. An update or delete of an id that no row of the store has leaves the cache and the
  table as they were and issues no deletion of a cache key; when the connection and the
  statement succeed the response is \<^verbatim>\<open>Product not found\<close> with status 404. A list
  request afterwards answers as it would have answered before, so a warm cache still
  answers with the source \<^verbatim>\<open>cache\<close>.
\<close>

theorem not_found_does_not_invalidate:
  assumes "product_id \<notin> fst ` set (table w)"
    and "req = PUT_product product_id name price \<or> req = DELETE_product product_id"
    and "handle L F cfg req w = (r, w')"
  shows "(\<not> F cfg DbConnect \<and> \<not> F cfg (DbExecute (UpdateProduct name price product_id)) \<and>
          \<not> F cfg (DbExecute (DeleteProduct product_id)) \<longrightarrow>
            r = Inr ProductNotFound \<and> status (ProductNotFound :: ('n, 'f) response) = 404)
     \<and> cache w' = cache w \<and> table w' = table w
     \<and> (\<forall>x \<in> set (emitted w w'). \<not> is_cache_delete x)
     \<and> fst (get_products L F' cfg' (advance d w')) = fst (get_products L F' cfg' (advance d w))
     \<and> (\<not> F' cfg' (CacheGet ''products'') \<and> cache_lookup (advance d w) ''products'' = Some s \<and>
        s \<noteq> [] \<and> json_loads L s = Some ds \<longrightarrow>
          fst (get_products L F' cfg' (advance d w')) = Inr (Products Cache ds))"
proof -
  note fr = not_found_frame [OF assms]
  have same: "fst (get_products L F' cfg' (advance d w')) = fst (get_products L F' cfg' (advance d w))"
    using fr by (intro get_products_frame) (simp_all add: advance_def)
  have hit: "fst (get_products L F' cfg' (advance d w')) = Inr (Products Cache ds)"
    if "\<not> F' cfg' (CacheGet ''products'')" "cache_lookup (advance d w) ''products'' = Some s"
      "s \<noteq> []" "json_loads L s = Some ds"
    using that by (simp add: same get_products_hit)
  from fr same hit show ?thesis by simp
qed

theorem not_found_does_not_invalidate_witness:
  "7 \<notin> fst ` set (table warm_world)
   \<and> fst (handle example_lib no_faults example_cfg (PUT_product 7 (Some ''Z'') (Some 1)) warm_world)
       = Inr ProductNotFound
   \<and> cache (snd (handle example_lib no_faults example_cfg (PUT_product 7 (Some ''Z'') (Some 1)) warm_world))
       = cache warm_world
   \<and> fst (get_products example_lib no_faults example_cfg
        (advance 1 (snd (handle example_lib no_faults example_cfg (PUT_product 7 (Some ''Z'') (Some 1)) warm_world))))
       = Inr (Products Cache [\<lparr> p_id = 1, p_name = Some ''A'', p_price = 10 \<rparr>, \<lparr> p_id = 2, p_name = Some ''B'', p_price = 20 \<rparr>])"
proof -
  let ?req = "PUT_product 7 (Some ''Z'') (Some (1 :: int))"
  let ?run = "handle example_lib no_faults example_cfg ?req warm_world"
  have a: "7 \<notin> fst ` set (table warm_world)"
    by (simp add: warm_world_def)
  have h: "?run = (fst ?run, snd ?run)" by simp
  have l: "json_loads example_lib (example_dumps [\<lparr> p_id = 1, p_name = Some ''A'', p_price = 10 \<rparr>, \<lparr> p_id = 2, p_name = Some ''B'', p_price = 20 \<rparr>]) = Some [\<lparr> p_id = 1, p_name = Some ''A'', p_price = 10 \<rparr>, \<lparr> p_id = 2, p_name = Some ''B'', p_price = 20 \<rparr>]"
    using example_lib_roundtrip [of "[\<lparr> p_id = 1, p_name = Some ''A'', p_price = 10 \<rparr>, \<lparr> p_id = 2, p_name = Some ''B'', p_price = 20 \<rparr>]"] by (simp add: example_lib_def)
  note inst = not_found_does_not_invalidate [OF a _ h, where name = "Some ''Z''" and price = "Some 1"
      and F' = no_faults and cfg' = example_cfg and d = 1 and s = "example_dumps [\<lparr> p_id = 1, p_name = Some ''A'', p_price = 10 \<rparr>, \<lparr> p_id = 2, p_name = Some ''B'', p_price = 20 \<rparr>]"
      and ds = "[\<lparr> p_id = 1, p_name = Some ''A'', p_price = 10 \<rparr>, \<lparr> p_id = 2, p_name = Some ''B'', p_price = 20 \<rparr>]"]
  have ok: "\<not> no_faults example_cfg (DbConnect :: int call)"
    "\<not> no_faults example_cfg (DbExecute (UpdateProduct (Some ''Z'') (Some (1 :: int)) 7))"
    "\<not> no_faults example_cfg (DbExecute (DeleteProduct 7 :: int statement))"
    "\<not> no_faults example_cfg (CacheGet ''products'' :: int call)"
    by (simp_all add: no_faults_def)
  from inst ok warm_lookup l a example_dumps_nonempty show ?thesis
    by blast
qed

section \<open>The cache is populated on a miss\<close>

text \<open>
  C5. With no snapshot in the cache and no failing call, a list request returns the rows
  of the store with the source \<^verbatim>\<open>database\<close> and stores their serialisation under the key
  \<^verbatim>\<open>products\<close>; the next list request, at once or less than 120 seconds later, returns the
  same list with the source \<^verbatim>\<open>cache\<close>. The two facts used about the library are that the
  serialised list is not the empty string and that \<^verbatim>\<open>json.loads\<close> gives back the list that
  \<^verbatim>\<open>json.dumps\<close> was given.
\<close>

theorem cache_population_on_miss:
  assumes "cache w ''products'' = None" and "\<forall>c. \<not> F cfg c"
    and "product_list L (sort_key fst (table w)) = Some ds"
    and "json_dumps L ds \<noteq> []" and "json_loads L (json_dumps L ds) = Some ds"
    and "get_products L F cfg w = (r1, w1)" and "d < 120"
  shows "r1 = Inr (Products Database ds)
     \<and> cache w1 ''products'' = Some (json_dumps L ds, clock w + 120)
     \<and> table w1 = table w
     \<and> fst (get_products L F cfg w1) = Inr (Products Cache ds)
     \<and> fst (get_products L F cfg (advance d w1)) = Inr (Products Cache ds)"
proof -
  from assms(1) have miss: "cache_lookup w ''products'' = None"
    by (simp add: cache_lookup_def)
  from assms(2) have g: "\<not> F cfg (CacheGet ''products'')" by simp
  from assms(6) have w1: "r1 = Inr (Products Database ds)"
    "w1 = w\<lparr>trace := trace w @ [Done (CacheGet ''products''), Done DbConnect,
                 Done (DbExecute SelectProducts), Done DbFetch, Done CursorClose, Done ConnClose,
                 Done (CacheSetex ''products'' 120)],
            cache := (cache w)(''products'' \<mapsto> (json_dumps L ds, clock w + 120))\<rparr>"
    using get_products_miss [where F = F and cfg = cfg and w = w and L = L] g miss assms(2,3) by simp_all
  have warm0: "cache_lookup w1 ''products'' = Some (json_dumps L ds)"
    by (simp add: w1 cache_lookup_def)
  have warm: "cache_lookup (advance d w1) ''products'' = Some (json_dumps L ds)"
    using assms(7) by (simp add: w1 cache_lookup_def advance_def)
  have second0: "fst (get_products L F cfg w1) = Inr (Products Cache ds)"
    using get_products_hit [where F = F and cfg = cfg and w = w1 and L = L and s = "json_dumps L ds"]
      g warm0 assms(4,5) by simp
  have second: "fst (get_products L F cfg (advance d w1)) = Inr (Products Cache ds)"
    using get_products_hit [where F = F and cfg = cfg and w = "advance d w1" and L = L
        and s = "json_dumps L ds"] g warm assms(4,5) by simp
  from w1 second0 second show ?thesis by simp
qed

theorem cache_population_on_miss_witness:
  "cache example_world ''products'' = None
   \<and> fst (get_products example_lib no_faults example_cfg example_world) = Inr (Products Database [\<lparr> p_id = 1, p_name = Some ''A'', p_price = 10 \<rparr>, \<lparr> p_id = 2, p_name = Some ''B'', p_price = 20 \<rparr>])
   \<and> fst (get_products example_lib no_faults example_cfg
        (snd (get_products example_lib no_faults example_cfg example_world))) = Inr (Products Cache [\<lparr> p_id = 1, p_name = Some ''A'', p_price = 10 \<rparr>, \<lparr> p_id = 2, p_name = Some ''B'', p_price = 20 \<rparr>])
   \<and> fst (get_products example_lib no_faults example_cfg
        (advance 119 (snd (get_products example_lib no_faults example_cfg example_world))))
       = Inr (Products Cache [\<lparr> p_id = 1, p_name = Some ''A'', p_price = 10 \<rparr>, \<lparr> p_id = 2, p_name = Some ''B'', p_price = 20 \<rparr>])"
proof -
  let ?run = "get_products example_lib no_faults example_cfg example_world"
  have e: "cache example_world ''products'' = None"
    by (simp add: example_world_def)
  have nf: "\<forall>c. \<not> no_faults example_cfg (c :: int call)"
    by (simp add: no_faults_def)
  have p: "product_list example_lib (sort_key fst (table example_world)) = Some [\<lparr> p_id = 1, p_name = Some ''A'', p_price = 10 \<rparr>, \<lparr> p_id = 2, p_name = Some ''B'', p_price = 20 \<rparr>]"
    using example_products by (simp add: example_world_def)
  have n: "json_dumps example_lib [\<lparr> p_id = 1, p_name = Some ''A'', p_price = 10 \<rparr>, \<lparr> p_id = 2, p_name = Some ''B'', p_price = 20 \<rparr>] \<noteq> []"
    by (simp add: example_lib_def example_dumps_nonempty)
  have h: "?run = (fst ?run, snd ?run)" by simp
  have d: "(119 :: nat) < 120" by simp
  from cache_population_on_miss [OF e nf p n example_lib_roundtrip h d] e show ?thesis
    by simp
qed

section \<open>Listed products are sorted by id\<close>

lemma product_list_ids: "product_list L rows = Some ds \<Longrightarrow> map p_id ds = map fst rows"
proof (induction rows arbitrary: ds)
  case Nil
  then show ?case by simp
next
  case (Cons p rows)
  then show ?case by (auto split: option.splits)
qed

lemma product_list_sorted:
  assumes "product_list L (sort_key fst rows) = Some ds"
  shows "sorted (map p_id ds)"
proof -
  have "map p_id ds = map fst (sort_key fst rows)"
    using assms by (rule product_list_ids)
  then show ?thesis by simp
qed

lemma snapshot_sorted_frame:
  "cache w' ''products'' = cache w ''products'' \<or> cache w' ''products'' = None \<Longrightarrow>
   snapshot_sorted L w \<Longrightarrow> snapshot_sorted L w'"
  by (auto simp: snapshot_sorted_def)

lemma get_products_keeps_snapshot_sorted:
  assumes "snapshot_sorted L w"
  shows "snapshot_sorted L (snd (get_products L F cfg w))"
proof (cases "F cfg (CacheGet ''products'')")
  case True
  with assms show ?thesis
    by (simp add: get_products_get_fails snapshot_sorted_def)
next
  case nf: False
  show ?thesis
  proof (cases "cache_lookup w ''products'' = None \<or> cache_lookup w ''products'' = Some []")
    case True
    have "snapshot_sorted L
            (w\<lparr>trace := t, cache := (cache w)(''products'' \<mapsto> (json_dumps L ds, clock w + 120))\<rparr>)"
      if "product_list L (sort_key fst (table w)) = Some ds" for t ds
      using product_list_sorted [OF that] by (auto simp: snapshot_sorted_def)
    with True nf assms show ?thesis
      by (auto simp add: get_products_miss snapshot_sorted_def split: option.splits)
  next
    case False
    then obtain s where s: "cache_lookup w ''products'' = Some s" "s \<noteq> []" by auto
    with nf assms show ?thesis
      by (simp add: get_products_hit snapshot_sorted_def)
  qed
qed

lemma handle_keeps_snapshot_sorted:
  assumes "snapshot_sorted L w"
  shows "snapshot_sorted L (snd (handle L F cfg req w))"
proof (cases req)
  case GET_products
  with assms show ?thesis
    by (simp add: handle_def get_products_keeps_snapshot_sorted)
next
  case (POST_products name price)
  have "cache (snd (add_product F cfg name price w)) ''products'' = cache w ''products'' \<or>
        cache (snd (add_product F cfg name price w)) ''products'' = None"
    by (simp add: add_product_nf)
  with assms POST_products show ?thesis
    by (simp add: handle_def snapshot_sorted_frame)
next
  case (PUT_product product_id name price)
  have "cache (snd (update_product F cfg product_id name price w)) ''products'' = cache w ''products'' \<or>
        cache (snd (update_product F cfg product_id name price w)) ''products'' = None"
    by (simp add: update_product_nf)
  with assms PUT_product show ?thesis
    by (simp add: handle_def snapshot_sorted_frame)
next
  case (DELETE_product product_id)
  have "cache (snd (delete_product F cfg product_id w)) ''products'' = cache w ''products'' \<or>
        cache (snd (delete_product F cfg product_id w)) ''products'' = None"
    by (simp add: delete_product_nf)
  with assms DELETE_product show ?thesis
    by (simp add: handle_def snapshot_sorted_frame)
qed

lemma advance_keeps_snapshot_sorted:
  "snapshot_sorted L w \<Longrightarrow> snapshot_sorted L (advance d w)"
  by (simp add: snapshot_sorted_def advance_def)

lemma serve_keeps_snapshot_sorted:
  "snapshot_sorted L w \<Longrightarrow> snapshot_sorted L (serve L cfg steps w)"
proof (induction steps arbitrary: w)
  case Nil
  then show ?case by simp
next
  case (Cons step steps)
  from Cons.prems
  have "snapshot_sorted L (snd (handle L (fst step) cfg (snd (snd step)) (advance (fst (snd step)) w)))"
    by (intro handle_keeps_snapshot_sorted advance_keeps_snapshot_sorted)
  then show ?case by (simp add: Cons.IH)
qed

lemma cache_lookup_Some:
  "cache_lookup w key = Some s \<Longrightarrow> \<exists>expires. cache w key = Some (s, expires)"
  by (auto simp: cache_lookup_def split: option.splits if_splits)

lemma get_products_database_sorted:
  assumes "fst (get_products L F cfg w) = Inr (Products Database ds)"
  shows "sorted (map p_id ds)"
proof (cases "F cfg (CacheGet ''products'')")
  case True
  with assms show ?thesis by (simp add: get_products_get_fails)
next
  case nf: False
  show ?thesis
  proof (cases "cache_lookup w ''products'' = None \<or> cache_lookup w ''products'' = Some []")
    case True
    with assms nf have "product_list L (sort_key fst (table w)) = Some ds"
      by (simp add: get_products_miss split: if_splits option.splits)
    then show ?thesis by (rule product_list_sorted)
  next
    case False
    then obtain s where s: "cache_lookup w ''products'' = Some s" "s \<noteq> []" by auto
    with assms nf show ?thesis
      by (simp add: get_products_hit split: option.splits)
  qed
qed

text \<open>
  C6. Start with no snapshot in the cache and serve any requests, with any faults and any
  delays. Then every list of products that a list request returns, from the store or from
  the cache, is sorted ascending by id: the cache only ever holds the serialisation of a
  list that the ordered read of the store produced. The fact used about the library is
  that \<^verbatim>\<open>json.loads\<close> gives back the list that \<^verbatim>\<open>json.dumps\<close> was given.
\<close>

theorem listed_products_sorted_by_id:
  assumes "cache w0 ''products'' = None"
    and "\<forall>xs. json_loads L (json_dumps L xs) = Some xs"
    and "fst (get_products L F cfg (advance d (serve L cfg steps w0))) = Inr (Products src ds)"
  shows "sorted (map p_id ds)"
proof (cases src)
  case Database
  with assms(3) show ?thesis by (simp add: get_products_database_sorted)
next
  case Cache
  let ?w = "advance d (serve L cfg steps w0)"
  from assms(1) have "snapshot_sorted L w0" by (simp add: snapshot_sorted_def)
  then have inv: "snapshot_sorted L ?w"
    by (intro advance_keeps_snapshot_sorted serve_keeps_snapshot_sorted)
  from assms(3) Cache obtain s where s: "cache_lookup ?w ''products'' = Some s" "json_loads L s = Some ds"
    using get_products_cache_only_on_hit by blast
  from cache_lookup_Some [OF s(1)] obtain expires where "cache ?w ''products'' = Some (s, expires)" ..
  with inv obtain xs where xs: "s = json_dumps L xs" "sorted (map p_id xs)"
    by (auto simp: snapshot_sorted_def)
  from s(2) xs(1) assms(2) have "ds = xs" by simp
  with xs(2) show ?thesis by simp
qed

theorem listed_products_sorted_by_id_witness:
  "cache example_world ''products'' = None
   \<and> (\<forall>xs. json_loads example_lib (json_dumps example_lib xs) = Some xs)
   \<and> fst (get_products example_lib no_faults example_cfg
        (advance 1 (serve example_lib example_cfg
          [(no_faults, 0, GET_products), (no_faults, 5, POST_products (Some ''C'') (Some 5)),
           (no_faults, 5, GET_products)] example_world)))
       = Inr (Products Cache [\<lparr> p_id = 1, p_name = Some ''A'', p_price = 10 \<rparr>, \<lparr> p_id = 2, p_name = Some ''B'', p_price = 20 \<rparr>,
            \<lparr> p_id = 3, p_name = Some ''C'', p_price = 5 \<rparr>])
   \<and> sorted (map p_id ([\<lparr> p_id = 1, p_name = Some ''A'', p_price = 10 \<rparr>, \<lparr> p_id = 2, p_name = Some ''B'', p_price = 20 \<rparr>,
            \<lparr> p_id = 3, p_name = Some ''C'', p_price = 5 \<rparr>] :: int product list))"
proof -
  have e: "cache example_world ''products'' = None"
    by (simp add: example_world_def)
  have rt: "\<forall>xs. json_loads example_lib (json_dumps example_lib xs) = Some xs"
    by (simp add: example_lib_roundtrip)
  have l: "json_loads example_lib (example_dumps [\<lparr> p_id = 1, p_name = Some ''A'', p_price = 10 \<rparr>, \<lparr> p_id = 2, p_name = Some ''B'', p_price = 20 \<rparr>,
            \<lparr> p_id = 3, p_name = Some ''C'', p_price = 5 \<rparr>]) = Some [\<lparr> p_id = 1, p_name = Some ''A'', p_price = 10 \<rparr>, \<lparr> p_id = 2, p_name = Some ''B'', p_price = 20 \<rparr>,
            \<lparr> p_id = 3, p_name = Some ''C'', p_price = 5 \<rparr>]"
    using example_lib_roundtrip [of "[\<lparr> p_id = 1, p_name = Some ''A'', p_price = 10 \<rparr>, \<lparr> p_id = 2, p_name = Some ''B'', p_price = 20 \<rparr>,
            \<lparr> p_id = 3, p_name = Some ''C'', p_price = 5 \<rparr>]"] by (simp add: example_lib_def)
  have g: "fst (get_products example_lib no_faults example_cfg
        (advance 1 (serve example_lib example_cfg
          [(no_faults, 0, GET_products), (no_faults, 5, POST_products (Some ''C'') (Some 5)),
           (no_faults, 5, GET_products)] example_world)))
       = Inr (Products Cache [\<lparr> p_id = 1, p_name = Some ''A'', p_price = 10 \<rparr>, \<lparr> p_id = 2, p_name = Some ''B'', p_price = 20 \<rparr>,
            \<lparr> p_id = 3, p_name = Some ''C'', p_price = 5 \<rparr>])"
    unfolding example_run
    by (simp add: get_products_hit [where s = "example_dumps [\<lparr> p_id = 1, p_name = Some ''A'', p_price = 10 \<rparr>, \<lparr> p_id = 2, p_name = Some ''B'', p_price = 20 \<rparr>,
            \<lparr> p_id = 3, p_name = Some ''C'', p_price = 5 \<rparr>]"]
        no_faults_def advance_def cache_lookup_def example_dumps_nonempty l)
  from listed_products_sorted_by_id [OF e rt g] e rt g show ?thesis by blast
qed

section \<open>The time to live of the snapshot\<close>

lemma get_products_setex_events:
  assumes "get_products L F cfg w = (r, w')"
    and "Done (CacheSetex key ttl) \<in> set (emitted w w') \<or> Failed (CacheSetex key ttl) \<in> set (emitted w w')"
  shows "key = ''products'' \<and> ttl = 120"
proof (cases "F cfg (CacheGet ''products'')")
  case True
  with assms show ?thesis by (auto simp add: get_products_get_fails emitted_def)
next
  case nf: False
  show ?thesis
  proof (cases "cache_lookup w ''products'' = None \<or> cache_lookup w ''products'' = Some []")
    case True
    with assms nf show ?thesis
      by (auto simp add: get_products_miss emitted_def split: if_splits option.splits)
  next
    case False
    then obtain s where s: "cache_lookup w ''products'' = Some s" "s \<noteq> []" by auto
    with assms nf show ?thesis
      by (auto simp add: get_products_hit emitted_def)
  qed
qed

lemma get_products_database_writes:
  assumes "get_products L F cfg w = (Inr (Products Database ds), w')"
  shows "Done (CacheSetex ''products'' 120) \<in> set (emitted w w') \<and>
         cache w' ''products'' = Some (json_dumps L ds, clock w + 120) \<and> clock w' = clock w"
proof (cases "F cfg (CacheGet ''products'')")
  case True
  with assms show ?thesis by (simp add: get_products_get_fails)
next
  case nf: False
  show ?thesis
  proof (cases "cache_lookup w ''products'' = None \<or> cache_lookup w ''products'' = Some []")
    case True
    with assms nf show ?thesis
      by (auto simp add: get_products_miss emitted_def split: if_splits option.splits)
  next
    case False
    then obtain s where s: "cache_lookup w ''products'' = Some s" "s \<noteq> []" by auto
    with assms nf show ?thesis
      by (auto simp add: get_products_hit split: option.splits)
  qed
qed

text \<open>
  C7, as amended. Whatever the settings are, the only write to the cache that a list
  request makes is under the key \<^verbatim>\<open>products\<close> with a time to live of 120 seconds: the
  number is written in the handler and no setting changes it. A list served from the
  store leaves a snapshot that is present for the next 120 seconds and absent afterwards.
\<close>

theorem snapshot_ttl_is_fixed:
  assumes "get_products L F cfg w = (r, w')"
  shows "(Done (CacheSetex key ttl) \<in> set (emitted w w') \<or>
          Failed (CacheSetex key ttl) \<in> set (emitted w w') \<longrightarrow> key = ''products'' \<and> ttl = 120)
     \<and> (r = Inr (Products Database ds) \<longrightarrow>
          Done (CacheSetex ''products'' 120) \<in> set (emitted w w') \<and>
          cache w' ''products'' = Some (json_dumps L ds, clock w + 120) \<and>
          cache_lookup (advance d w') ''products'' = (if d < 120 then Some (json_dumps L ds) else None))"
proof (intro conjI impI)
  assume "Done (CacheSetex key ttl) \<in> set (emitted w w') \<or> Failed (CacheSetex key ttl) \<in> set (emitted w w')"
  with assms show "key = ''products''" and "ttl = 120"
    using get_products_setex_events by blast+
next
  assume "r = Inr (Products Database ds)"
  with assms have db: "get_products L F cfg w = (Inr (Products Database ds), w')" by simp
  note wr = get_products_database_writes [OF db]
  from wr show "Done (CacheSetex ''products'' 120) \<in> set (emitted w w')" by simp
  from wr show "cache w' ''products'' = Some (json_dumps L ds, clock w + 120)" by simp
  from wr show "cache_lookup (advance d w') ''products'' = (if d < 120 then Some (json_dumps L ds) else None)"
    by (simp add: cache_lookup_def advance_def)
qed

theorem snapshot_ttl_is_fixed_witness:
  "fst (get_products example_lib no_faults other_cfg example_world) = Inr (Products Database [\<lparr> p_id = 1, p_name = Some ''A'', p_price = 10 \<rparr>, \<lparr> p_id = 2, p_name = Some ''B'', p_price = 20 \<rparr>])
   \<and> Done (CacheSetex ''products'' 120)
        \<in> set (emitted example_world (snd (get_products example_lib no_faults other_cfg example_world)))
   \<and> cache (snd (get_products example_lib no_faults other_cfg example_world)) ''products''
        = Some (example_dumps [\<lparr> p_id = 1, p_name = Some ''A'', p_price = 10 \<rparr>, \<lparr> p_id = 2, p_name = Some ''B'', p_price = 20 \<rparr>], 120)
   \<and> cache_lookup (advance 119 (snd (get_products example_lib no_faults other_cfg example_world))) ''products''
        = Some (example_dumps [\<lparr> p_id = 1, p_name = Some ''A'', p_price = 10 \<rparr>, \<lparr> p_id = 2, p_name = Some ''B'', p_price = 20 \<rparr>])
   \<and> cache_lookup (advance 120 (snd (get_products example_lib no_faults other_cfg example_world))) ''products''
        = None"
proof -
  let ?run = "get_products example_lib no_faults other_cfg example_world"
  have r: "fst ?run = Inr (Products Database [\<lparr> p_id = 1, p_name = Some ''A'', p_price = 10 \<rparr>, \<lparr> p_id = 2, p_name = Some ''B'', p_price = 20 \<rparr>])"
    by (simp add: example_miss)
  have h: "?run = (fst ?run, snd ?run)" by simp
  have c: "clock example_world = 0" and j: "json_dumps example_lib = example_dumps"
    by (simp_all add: example_world_def example_lib_def)
  note inst = snapshot_ttl_is_fixed [OF h, where ds = "[\<lparr> p_id = 1, p_name = Some ''A'', p_price = 10 \<rparr>, \<lparr> p_id = 2, p_name = Some ''B'', p_price = 20 \<rparr>]"]
  from inst [where d = 119] inst [where d = 120] r c j show ?thesis
    by simp
qed

theorem snapshot_ttl_not_configurable_counterexample:
  "load_config example_lib Map.empty Map.empty = Some example_cfg
   \<and> load_config example_lib other_env Map.empty = Some other_cfg
   \<and> cache (snd (get_products example_lib no_faults example_cfg example_world)) ''products''
        = Some (example_dumps [\<lparr> p_id = 1, p_name = Some ''A'', p_price = 10 \<rparr>, \<lparr> p_id = 2, p_name = Some ''B'', p_price = 20 \<rparr>], clock example_world + 120)
   \<and> cache (snd (get_products example_lib no_faults other_cfg example_world)) ''products''
        = Some (example_dumps [\<lparr> p_id = 1, p_name = Some ''A'', p_price = 10 \<rparr>, \<lparr> p_id = 2, p_name = Some ''B'', p_price = 20 \<rparr>], clock example_world + 120)"
proof -
  have a: "load_config example_lib Map.empty Map.empty = Some example_cfg"
    by (simp add: load_config_def get_secret_def getenv_def example_lib_def example_int_def example_cfg_def)
  have b: "load_config example_lib other_env Map.empty = Some other_cfg"
    by (simp add: load_config_def get_secret_def getenv_def example_lib_def example_int_def other_cfg_def
        other_env_def)
  have c: "cache (snd (get_products example_lib no_faults cfg example_world)) ''products''
        = Some (example_dumps [\<lparr> p_id = 1, p_name = Some ''A'', p_price = 10 \<rparr>, \<lparr> p_id = 2, p_name = Some ''B'', p_price = 20 \<rparr>], clock example_world + 120)" for cfg :: "int config"
    by (simp add: example_miss) (simp add: example_world_def)
  from a b c show ?thesis by blast
qed

section \<open>When the new id is read\<close>

text \<open>
  C8, as amended. In a create, the id is read from the cursor right after the insert
  statement and before the commit is issued. The response that carries the id is only
  returned after the commit succeeded, with the new row in the committed table.
\<close>

theorem id_read_before_commit:
  assumes "add_product F cfg name price w = (r, w')"
  shows "(Done DbCommit \<in> set (emitted w w') \<or> Failed DbCommit \<in> set (emitted w w') \<longrightarrow>
           take 4 (emitted w w') = [Done DbConnect, Done (DbExecute (InsertProduct name price)), Done DbFetch,
             if F cfg DbCommit then Failed DbCommit else Done DbCommit])
     \<and> (r = Inr (ProductAdded i) \<longrightarrow>
           i = next_id w \<and> Done DbCommit \<in> set (emitted w w') \<and> table w' = table w @ [(i, name, price)])"
  using assms
  by (auto simp add: add_product_nf emitted_def split: if_splits)

theorem id_read_before_commit_witness:
  "fst (add_product no_faults example_cfg (Some ''C'') (Some 5) example_world
         :: (int exn + (int, int) response) \<times> int world) = Inr (ProductAdded 3)
   \<and> take 4 (emitted example_world (snd (add_product no_faults example_cfg (Some ''C'') (Some 5) example_world
         :: (int exn + (int, int) response) \<times> int world)))
       = [Done DbConnect, Done (DbExecute (InsertProduct (Some ''C'') (Some 5))), Done DbFetch, Done DbCommit]
   \<and> table (snd (add_product no_faults example_cfg (Some ''C'') (Some 5) example_world
         :: (int exn + (int, int) response) \<times> int world))
       = [(2, Some ''B'', Some 20), (1, Some ''A'', Some 10), (3, Some ''C'', Some 5)]"
proof -
  let ?run = "add_product no_faults example_cfg (Some ''C'') (Some 5) example_world
         :: (int exn + (int, int) response) \<times> int world"
  have r: "fst ?run = Inr (ProductAdded 3)"
    by (simp add: add_product_nf no_faults_def example_world_def)
  have h: "?run = (fst ?run, snd ?run)" by simp
  have n: "next_id example_world = 3" "table example_world = [(2, Some ''B'', Some 20), (1, Some ''A'', Some 10)]"
    "\<not> no_faults example_cfg (DbCommit :: int call)"
    by (simp_all add: example_world_def no_faults_def)
  from id_read_before_commit [OF h, where i = 3] r n show ?thesis
    by simp
qed

theorem id_read_before_commit_counterexample:
  "emitted example_world (snd (add_product no_faults example_cfg (Some ''C'') (Some 5) example_world
         :: (int exn + (int, int) response) \<times> int world))
       = [Done DbConnect, Done (DbExecute (InsertProduct (Some ''C'') (Some 5))), Done DbFetch, Done DbCommit,
          Done CursorClose, Done ConnClose, Done (CacheDelete ''products'')]
   \<and> emitted example_world (snd (add_product (only_fails DbCommit) example_cfg (Some ''C'') (Some 5) example_world
         :: (int exn + (int, int) response) \<times> int world))
       = [Done DbConnect, Done (DbExecute (InsertProduct (Some ''C'') (Some 5))), Done DbFetch, Failed DbCommit]
   \<and> table (snd (add_product (only_fails DbCommit) example_cfg (Some ''C'') (Some 5) example_world
         :: (int exn + (int, int) response) \<times> int world))
       = table example_world"
  by (simp add: add_product_nf no_faults_def only_fails_def emitted_def)

section \<open>A failing cache call\<close>

text \<open>
  C3, as amended. A failing cache call is not absorbed. A failed read of the cache leaves
  the list handler as an exception. A failed write of the snapshot, after the store was
  read, and a failed deletion of the snapshot, after the commit, are caught by the handler
  and answered with the error of that call and status 500; the mutation stays committed
  and the snapshot stays in the cache.
\<close>

theorem cache_failure_is_surfaced:
  "(F cfg (CacheGet ''products'') \<longrightarrow>
      fst (get_products L F cfg w) = Inl (CallFailed (CacheGet ''products'')))
   \<and> (\<not> F cfg (CacheGet ''products'') \<and> (\<forall>c. is_store_call c \<longrightarrow> \<not> F cfg c) \<and>
      (cache_lookup w ''products'' = None \<or> cache_lookup w ''products'' = Some []) \<and>
      product_list L (sort_key fst (table w)) = Some ds \<and> F cfg (CacheSetex ''products'' 120) \<longrightarrow>
        fst (get_products L F cfg w) = Inr (ServerError (CallFailed (CacheSetex ''products'' 120))))
   \<and> (is_mutation req \<and> (\<forall>c. is_store_call c \<longrightarrow> \<not> F cfg c) \<and> F cfg (CacheDelete ''products'') \<and>
      fst (handle L no_faults cfg req w) \<noteq> Inr ProductNotFound \<longrightarrow>
        fst (handle L F cfg req w) = Inr (ServerError (CallFailed (CacheDelete ''products''))) \<and>
        table (snd (handle L F cfg req w)) = table (snd (handle L no_faults cfg req w)) \<and>
        cache (snd (handle L F cfg req w)) = cache w)"
proof (intro conjI impI)
  assume "F cfg (CacheGet ''products'')"
  then show "fst (get_products L F cfg w) = Inl (CallFailed (CacheGet ''products''))"
    by (simp add: get_products_get_fails)
next
  assume "\<not> F cfg (CacheGet ''products'') \<and> (\<forall>c. is_store_call c \<longrightarrow> \<not> F cfg c) \<and>
      (cache_lookup w ''products'' = None \<or> cache_lookup w ''products'' = Some []) \<and>
      product_list L (sort_key fst (table w)) = Some ds \<and> F cfg (CacheSetex ''products'' 120)"
  moreover from this have "\<not> F cfg DbConnect" "\<not> F cfg (DbExecute SelectProducts)" "\<not> F cfg DbFetch"
    "\<not> F cfg CursorClose" "\<not> F cfg ConnClose"
    by simp_all
  ultimately show "fst (get_products L F cfg w) = Inr (ServerError (CallFailed (CacheSetex ''products'' 120)))"
    by (simp add: get_products_miss)
next
  assume a: "is_mutation req \<and> (\<forall>c. is_store_call c \<longrightarrow> \<not> F cfg c) \<and> F cfg (CacheDelete ''products'') \<and>
      fst (handle L no_faults cfg req w) \<noteq> Inr ProductNotFound"
  then have ok: "\<not> F cfg DbConnect" "\<not> F cfg DbFetch" "\<not> F cfg DbCommit"
    "\<not> F cfg CursorClose" "\<not> F cfg ConnClose" "\<And>stmt. \<not> F cfg (DbExecute stmt)"
    by simp_all
  have "fst (handle L F cfg req w) = Inr (ServerError (CallFailed (CacheDelete ''products''))) \<and>
        table (snd (handle L F cfg req w)) = table (snd (handle L no_faults cfg req w)) \<and>
        cache (snd (handle L F cfg req w)) = cache w"
  proof (cases req)
    case GET_products
    with a show ?thesis by simp
  next
    case (POST_products name price)
    with a ok show ?thesis
      by (simp add: handle_def add_product_nf no_faults_def)
  next
    case (PUT_product product_id name price)
    with a ok show ?thesis
      by (simp add: handle_def update_product_nf no_faults_def split: if_splits)
  next
    case (DELETE_product product_id)
    with a ok show ?thesis
      by (simp add: handle_def delete_product_nf no_faults_def split: if_splits)
  qed
  then show "fst (handle L F cfg req w) = Inr (ServerError (CallFailed (CacheDelete ''products'')))"
    and "table (snd (handle L F cfg req w)) = table (snd (handle L no_faults cfg req w))"
    and "cache (snd (handle L F cfg req w)) = cache w"
    by simp_all
qed

theorem cache_failure_is_surfaced_witness:
  "fst (get_products example_lib (only_fails (CacheGet ''products'')) example_cfg warm_world)
       = Inl (CallFailed (CacheGet ''products''))
   \<and> fst (get_products example_lib (only_fails (CacheSetex ''products'' 120)) example_cfg example_world)
       = Inr (ServerError (CallFailed (CacheSetex ''products'' 120)))
   \<and> fst (handle example_lib (only_fails (CacheDelete ''products'')) example_cfg
         (POST_products (Some ''C'') (Some 5)) warm_world)
       = Inr (ServerError (CallFailed (CacheDelete ''products'')))
   \<and> table (snd (handle example_lib (only_fails (CacheDelete ''products'')) example_cfg
         (POST_products (Some ''C'') (Some 5)) warm_world))
       = [(2, Some ''B'', Some 20), (1, Some ''A'', Some 10), (3, Some ''C'', Some 5)]
   \<and> cache (snd (handle example_lib (only_fails (CacheDelete ''products'')) example_cfg
         (POST_products (Some ''C'') (Some 5)) warm_world))
       = cache warm_world"
proof -
  let ?req = "POST_products (Some ''C'') (Some (5 :: int))"
  have g: "only_fails (CacheGet ''products'') example_cfg (CacheGet ''products'' :: int call)"
    by (simp add: only_fails_def)
  have s: "\<not> only_fails (CacheSetex ''products'' 120) example_cfg (CacheGet ''products'' :: int call) \<and>
      (\<forall>c :: int call. is_store_call c \<longrightarrow> \<not> only_fails (CacheSetex ''products'' 120) example_cfg c) \<and>
      (cache_lookup example_world ''products'' = None \<or> cache_lookup example_world ''products'' = Some []) \<and>
      product_list example_lib (sort_key fst (table example_world)) = Some [\<lparr> p_id = 1, p_name = Some ''A'', p_price = 10 \<rparr>, \<lparr> p_id = 2, p_name = Some ''B'', p_price = 20 \<rparr>] \<and>
      only_fails (CacheSetex ''products'' 120) example_cfg (CacheSetex ''products'' 120 :: int call)"
    using example_products by (auto simp add: only_fails_def example_world_def cache_lookup_def)
  have d: "is_mutation ?req \<and>
      (\<forall>c :: int call. is_store_call c \<longrightarrow> \<not> only_fails (CacheDelete ''products'') example_cfg c) \<and>
      only_fails (CacheDelete ''products'') example_cfg (CacheDelete ''products'' :: int call) \<and>
      fst (handle example_lib no_faults example_cfg ?req warm_world) \<noteq> Inr ProductNotFound"
    by (auto simp add: only_fails_def handle_def add_product_nf no_faults_def)
  have t: "table (snd (handle example_lib no_faults example_cfg ?req warm_world)) =
      [(2, Some ''B'', Some 20), (1, Some ''A'', Some 10), (3, Some ''C'', Some 5)]"
    by (simp add: handle_def add_product_nf no_faults_def warm_world_def)
  from cache_failure_is_surfaced [where F = "only_fails (CacheGet ''products'')" and cfg = example_cfg
      and L = example_lib and w = warm_world and req = ?req and ds = "[]"] g
  have 1: "fst (get_products example_lib (only_fails (CacheGet ''products'')) example_cfg warm_world)
       = Inl (CallFailed (CacheGet ''products''))"
    by blast
  from cache_failure_is_surfaced [where F = "only_fails (CacheSetex ''products'' 120)" and cfg = example_cfg
      and L = example_lib and w = example_world and req = ?req and ds = "[\<lparr> p_id = 1, p_name = Some ''A'', p_price = 10 \<rparr>, \<lparr> p_id = 2, p_name = Some ''B'', p_price = 20 \<rparr>]"] s
  have 2: "fst (get_products example_lib (only_fails (CacheSetex ''products'' 120)) example_cfg example_world)
       = Inr (ServerError (CallFailed (CacheSetex ''products'' 120)))"
    by blast
  from cache_failure_is_surfaced [where F = "only_fails (CacheDelete ''products'')" and cfg = example_cfg
      and L = example_lib and w = warm_world and req = ?req and ds = "[]"] d
  have 3: "fst (handle example_lib (only_fails (CacheDelete ''products'')) example_cfg ?req warm_world)
       = Inr (ServerError (CallFailed (CacheDelete ''products''))) \<and>
     table (snd (handle example_lib (only_fails (CacheDelete ''products'')) example_cfg ?req warm_world))
       = table (snd (handle example_lib no_faults example_cfg ?req warm_world)) \<and>
     cache (snd (handle example_lib (only_fails (CacheDelete ''products'')) example_cfg ?req warm_world))
       = cache warm_world"
    by blast
  from 1 2 3 t show ?thesis by simp
qed

theorem cache_failure_changes_outcome_counterexample:
  "fst (get_products example_lib no_faults example_cfg example_world)
       = Inr (Products Database [\<lparr> p_id = 1, p_name = Some ''A'', p_price = 10 \<rparr>, \<lparr> p_id = 2, p_name = Some ''B'', p_price = 20 \<rparr>])
   \<and> fst (get_products example_lib (only_fails (CacheSetex ''products'' 120)) example_cfg example_world)
       = Inr (ServerError (CallFailed (CacheSetex ''products'' 120)))
   \<and> fst (get_products example_lib (only_fails (CacheGet ''products'')) example_cfg example_world)
       = Inl (CallFailed (CacheGet ''products''))
   \<and> fst (add_product no_faults example_cfg (Some ''C'') (Some 5) example_world
         :: (int exn + (int, int) response) \<times> int world) = Inr (ProductAdded 3)
   \<and> fst (add_product (only_fails (CacheDelete ''products'')) example_cfg (Some ''C'') (Some 5) example_world
         :: (int exn + (int, int) response) \<times> int world)
       = Inr (ServerError (CallFailed (CacheDelete ''products'')))"
proof -
  have m: "cache_lookup example_world ''products'' = None"
    by (simp add: cache_lookup_def example_world_def)
  have p: "product_list example_lib (sort_key fst (table example_world)) = Some [\<lparr> p_id = 1, p_name = Some ''A'', p_price = 10 \<rparr>, \<lparr> p_id = 2, p_name = Some ''B'', p_price = 20 \<rparr>]"
    using example_products by (simp add: example_world_def)
  have 1: "fst (get_products example_lib no_faults example_cfg example_world)
       = Inr (Products Database [\<lparr> p_id = 1, p_name = Some ''A'', p_price = 10 \<rparr>, \<lparr> p_id = 2, p_name = Some ''B'', p_price = 20 \<rparr>])"
    by (simp add: get_products_miss no_faults_def m p)
  have 2: "fst (get_products example_lib (only_fails (CacheSetex ''products'' 120)) example_cfg example_world)
       = Inr (ServerError (CallFailed (CacheSetex ''products'' 120)))"
    by (simp add: get_products_miss only_fails_def m p)
  have 3: "fst (get_products example_lib (only_fails (CacheGet ''products'')) example_cfg example_world)
       = Inl (CallFailed (CacheGet ''products''))"
    by (simp add: get_products_get_fails only_fails_def)
  have 4: "fst (add_product no_faults example_cfg (Some ''C'') (Some 5) example_world
         :: (int exn + (int, int) response) \<times> int world) = Inr (ProductAdded 3)"
    by (simp add: add_product_nf no_faults_def example_world_def)
  have 5: "fst (add_product (only_fails (CacheDelete ''products'')) example_cfg (Some ''C'') (Some 5) example_world
         :: (int exn + (int, int) response) \<times> int world)
       = Inr (ServerError (CallFailed (CacheDelete ''products'')))"
    by (simp add: add_product_nf only_fails_def)
  from 1 2 3 4 5 show ?thesis by blast
qed

end
